theory Spec2Isabelle
  imports Main "HOL-Library.Word"
begin

unbundle bit_operations_syntax

section \<open>Common/Util.h: bit flag helpers\<close>

type_synonym uint32 = "32 word"

text \<open>
  \<^verbatim>\<open>template <typename M, typename F> bool BitFlagTest(M mask, F flag) { return (mask & flag) != 0; }\<close>
  \<^verbatim>\<open>template <typename M, typename F> bool BitFlagsTest(M mask, F flags) { return (mask & flags) == flags; }\<close>
  \<^verbatim>\<open>template <typename M, typename F> void SetBitFlag(M& out, F flag, bool on)
     { out ^= (out ^ (on ? flag : 0)) & flag; }\<close>
  The templates are modelled at one integer width \<open>'a\<close> for mask and flag; the reference
  parameter \<open>out\<close> is passed in and its new value is returned.
\<close>

definition BitFlagTest :: "'a::len word \<Rightarrow> 'a word \<Rightarrow> bool" where
  "BitFlagTest msk flag = ((msk AND flag) \<noteq> 0)"

definition BitFlagsTest :: "'a::len word \<Rightarrow> 'a word \<Rightarrow> bool" where
  "BitFlagsTest msk flags = ((msk AND flags) = flags)"

definition SetBitFlag :: "'a::len word \<Rightarrow> 'a word \<Rightarrow> bool \<Rightarrow> 'a word" where
  "SetBitFlag out flag on = out XOR ((out XOR (if on then flag else 0)) AND flag)"

section \<open>Common/Util.h: GetNextBit\<close>

text \<open>
  The body of \<open>GetNextBit\<close> is selected by the preprocessor; each of the four alternatives
  is a build of the same function.
\<close>

datatype build =
    Win32_IX86    \<comment> \<open>\<^verbatim>\<open>defined(_WIN32) && defined(_M_IX86)\<close>: \<^verbatim>\<open>_tzcnt_u32\<close>\<close>
  | Win32_Other   \<comment> \<open>\<^verbatim>\<open>defined(_WIN32)\<close>: \<^verbatim>\<open>_BitScanForward\<close>\<close>
  | Gnuc          \<comment> \<open>\<^verbatim>\<open>defined(__GNUC__)\<close>: \<^verbatim>\<open>__builtin_ctz\<close>\<close>
  | Portable      \<comment> \<open>the plain C++ loop\<close>

text \<open>
  What \<open>*pIndex\<close> holds after the call: a value, or an indeterminate one where the
  compiler intrinsic leaves its result undefined (a zero operand of \<^verbatim>\<open>_BitScanForward\<close>
  and of \<^verbatim>\<open>__builtin_ctz\<close>).
\<close>

datatype stored = Value uint32 | Indeterminate

text \<open>The number of trailing zero bits of a 32-bit value; 32 for zero.\<close>

definition trailing_zeros :: "uint32 \<Rightarrow> nat" where
  "trailing_zeros w = length (takeWhile Not (map (bit w) [0..<32]))"

text \<open>\<^verbatim>\<open>_tzcnt_u32\<close>: the trailing zero count, the operand size (32) for a zero operand.\<close>

definition tzcnt_u32 :: "uint32 \<Rightarrow> uint32" where
  "tzcnt_u32 msk = of_nat (trailing_zeros msk)"

text \<open>\<^verbatim>\<open>_BitScanForward(pIndex, mask)\<close>: the index is undefined when no bit is set.\<close>

definition BitScanForward :: "uint32 \<Rightarrow> stored" where
  "BitScanForward msk = (if msk = 0 then Indeterminate else Value (of_nat (trailing_zeros msk)))"

text \<open>\<^verbatim>\<open>__builtin_ctz(mask)\<close>: the result is undefined for zero.\<close>

definition builtin_ctz :: "uint32 \<Rightarrow> stored" where
  "builtin_ctz msk = (if msk = 0 then Indeterminate else Value (of_nat (trailing_zeros msk)))"

text \<open>
  \<^verbatim>\<open>for (; (mask & 1) == 0; mask >>= 1, ++index);\<close>
  The loop shifts the parameter \<open>mask\<close> itself, so it returns the shifted mask with the
  index. It does not end on a zero mask: not returning is \<open>None\<close>.
\<close>

partial_function (option) scan_loop :: "uint32 \<Rightarrow> uint32 \<Rightarrow> (uint32 \<times> uint32) option" where
  "scan_loop msk index =
     (if (msk AND 1) = 0 then scan_loop (drop_bit 1 msk) (index + 1) else Some (msk, index))"

text \<open>
  \<open>GetNextBit b pIndex msk\<close>, where \<open>pIndex\<close> is the value \<open>*pIndex\<close> holds before the
  call: the returned flag and what \<open>*pIndex\<close> holds after it.
\<close>

definition GetNextBit :: "build \<Rightarrow> uint32 \<Rightarrow> uint32 \<Rightarrow> (bool \<times> stored) option" where
  "GetNextBit b pIndex msk =
     (let result = False in
      case (case b of
              Win32_IX86 \<Rightarrow> Some (msk, Value (tzcnt_u32 msk))
            | Win32_Other \<Rightarrow> Some (msk, BitScanForward msk)
            | Gnuc \<Rightarrow> Some (msk, builtin_ctz msk)
            | Portable \<Rightarrow>
                (if msk \<noteq> 0
                 then (case scan_loop msk 0 of
                         None \<Rightarrow> None
                       | Some (msk', index) \<Rightarrow> Some (msk', Value index))
                 else Some (msk, Value pIndex)))
      of None \<Rightarrow> None
       | Some (msk', st) \<Rightarrow> Some (if msk' \<noteq> 0 then (msk' \<noteq> 0) else result, st))"

section \<open>The host process\<close>

text \<open>
  The binding layer runs inside the host executable. Its methods call into fixed
  addresses of that executable (\<^verbatim>\<open>OP2Thunk<Address, Fn>(args...)\<close> for free functions,
  \<^verbatim>\<open>Thunk<Address, &$::Method>(args...)\<close> for members, which pass \<open>this\<close> first) and read
  fields of its objects. The executable is not part of the sources: its state is a type
  \<open>'h\<close>, and what each entry point does to that state and returns is a parameter, the
  record \<open>'h env\<close> below. Every call into the host is recorded, in order, in a trace.
\<close>

type_synonym address = nat  \<comment> \<open>a pointer; \<open>nullptr\<close> is 0\<close>

type_synonym MapID = int    \<comment> \<open>\<^verbatim>\<open>enum class MapID : int\<close>\<close>

text \<open>
  A \<^verbatim>\<open>std::string_view\<close> is a pointer and a length. \<open>data v\<close> stands for the pointer
  \<^verbatim>\<open>v.data()\<close>: the characters stored from that pointer to the end of the array it points
  into. \<open>view_size v\<close> is \<^verbatim>\<open>v.size()\<close>, and the text the view denotes is its first
  \<open>view_size v\<close> characters. The binding layer hands \<^verbatim>\<open>v.data()\<close> to the host as a
  \<^verbatim>\<open>const char*\<close>, which carries no length.
\<close>

datatype string_view = string_view (data: string) (view_size: nat)



datatype Location = Location (loc_x: int) (loc_y: int)

datatype MapRect = MapRect (rect_x1: int) (rect_y1: int) (rect_x2: int) (rect_y2: int)

datatype Unit = Unit (unit_id: int)        \<comment> \<open>the handle \<open>id_\<close> of a \<open>Unit\<close>\<close>

datatype Trigger = Trigger (stub_id: int)  \<comment> \<open>the \<open>ScStub\<close> handle of a \<open>Trigger\<close>\<close>

datatype ScGroup = ScGroup (group_id: int) \<comment> \<open>the \<open>ScStub\<close> handle of an \<open>ScGroup\<close>\<close>

text \<open>An argument handed to the host. Enumeration values and \<open>ibool\<close> travel as \<open>int\<close>.\<close>

datatype arg =
    IntArg int
  | StrArg string  \<comment> \<open>a \<^verbatim>\<open>const char*\<close>: the characters stored from the pointer on\<close>
  | LocArg Location
  | ThisArg address
  | UnitArg Unit
  | TriggerArg Trigger
  | GroupArg ScGroup

text \<open>
  Where a call enters the host: a fixed address, or a method of a class whose header is
  not among the sources (its address is in that header).
\<close>

datatype entry =
    At address
  | MapImpl_Deinit
  | MapImpl_LoadFromFile
  | TerrainManager_GetBulldozedTileIndex
  | TerrainManager_GetScorchMarkTileIndex
  | TerrainManager_GetCommonRubbleTileIndex
  | TerrainManager_GetRareRubbleTileIndex
  | Unit_DoSetLights
  | Random_Rand
  | MineManager_GetVariantNum
  | Player_GetBeacons

type_synonym call = "entry \<times> arg list"

text \<open>
  The environment of the binding layer. The \<open>thunk_\<close> fields are the host's entry points, one
  field per kind of result (\<open>thunk_UnitRef\<close> is for entry points whose first parameter is a
  \<^verbatim>\<open>Unit&\<close> that they assign). The next fields read host memory
  (the fields \<open>pPlayerNext_\<close>, \<open>pVehicleList_\<close>, \<open>pBuildingList_\<close> and \<open>pEntityList_\<close> are
  written without the final underscore). The last fields are
  declarations of headers that are not among the sources: the default-constructed \<open>Unit\<close>,
  \<open>Location::operator+\<close>, \<open>MapRect::Width\<close> and \<open>MapRect::Height\<close>, and the values of
  enumerators.
\<close>

record 'h env =
  thunk_void :: "entry \<Rightarrow> arg list \<Rightarrow> 'h \<Rightarrow> 'h"
  thunk_int :: "entry \<Rightarrow> arg list \<Rightarrow> 'h \<Rightarrow> int \<times> 'h"
  thunk_Unit :: "entry \<Rightarrow> arg list \<Rightarrow> 'h \<Rightarrow> Unit \<times> 'h"
  thunk_UnitRef :: "entry \<Rightarrow> Unit \<Rightarrow> arg list \<Rightarrow> 'h \<Rightarrow> (int \<times> Unit) \<times> 'h"
  thunk_Trigger :: "entry \<Rightarrow> arg list \<Rightarrow> 'h \<Rightarrow> Trigger \<times> 'h"
  Unit_IsVehicle :: "'h \<Rightarrow> Unit \<Rightarrow> bool"
  Unit_of_MapObject :: "'h \<Rightarrow> address \<Rightarrow> Unit"
  pPlayerNext :: "'h \<Rightarrow> address \<Rightarrow> address"
  GetTypeID :: "'h \<Rightarrow> address \<Rightarrow> MapID"
  pVehicleList :: "'h \<Rightarrow> int \<Rightarrow> address"
  pBuildingList :: "'h \<Rightarrow> int \<Rightarrow> address"
  pEntityList :: "'h \<Rightarrow> int \<Rightarrow> address"
  Unit_default :: Unit
  Location_plus :: "Location \<Rightarrow> Location \<Rightarrow> Location"
  MapRect_Width :: "MapRect \<Rightarrow> int"
  MapRect_Height :: "MapRect \<Rightarrow> int"
  MapID_Any :: MapID
  MapID_CargoTruck :: MapID
  MapID_MagmaVent :: MapID
  MapID_Fumarole :: MapID
  MapID_MiningBeacon :: MapID
  OreType_Random :: int
  OreType_Common :: int
  OreType_Rare :: int
  OreYield_Random :: int
  OreYield_Bar1 :: int
  OreYield_Bar2 :: int
  OreYield_Bar3 :: int
  OreVariant_Random :: int

text \<open>The running process: the host's state and the calls made into it so far.\<close>

record 'h process =
  host :: 'h
  trace :: "call list"

definition OP2Thunk_void :: "'h env \<Rightarrow> entry \<Rightarrow> arg list \<Rightarrow> 'h process \<Rightarrow> 'h process" where
  "OP2Thunk_void E a args s =
     \<lparr>host = thunk_void E a args (host s), trace = trace s @ [(a, args)]\<rparr>"

definition OP2Thunk_int ::
  "'h env \<Rightarrow> entry \<Rightarrow> arg list \<Rightarrow> 'h process \<Rightarrow> int \<times> 'h process" where
  "OP2Thunk_int E a args s =
     (case thunk_int E a args (host s) of
        (r, h) \<Rightarrow> (r, \<lparr>host = h, trace = trace s @ [(a, args)]\<rparr>))"

definition OP2Thunk_Unit ::
  "'h env \<Rightarrow> entry \<Rightarrow> arg list \<Rightarrow> 'h process \<Rightarrow> Unit \<times> 'h process" where
  "OP2Thunk_Unit E a args s =
     (case thunk_Unit E a args (host s) of
        (r, h) \<Rightarrow> (r, \<lparr>host = h, trace = trace s @ [(a, args)]\<rparr>))"

definition OP2Thunk_UnitRef ::
  "'h env \<Rightarrow> entry \<Rightarrow> Unit \<Rightarrow> arg list \<Rightarrow> 'h process \<Rightarrow> (int \<times> Unit) \<times> 'h process" where
  "OP2Thunk_UnitRef E a u args s =
     (case thunk_UnitRef E a u args (host s) of
        (r, h) \<Rightarrow> (r, \<lparr>host = h, trace = trace s @ [(a, UnitArg u # args)]\<rparr>))"

definition OP2Thunk_Trigger ::
  "'h env \<Rightarrow> entry \<Rightarrow> arg list \<Rightarrow> 'h process \<Rightarrow> Trigger \<times> 'h process" where
  "OP2Thunk_Trigger E a args s =
     (case thunk_Trigger E a args (host s) of
        (r, h) \<Rightarrow> (r, \<lparr>host = h, trace = trace s @ [(a, args)]\<rparr>))"

text \<open>The conversion of a \<open>bool\<close> argument to the host's \<^verbatim>\<open>ibool\<close> (an \<open>int\<close>).\<close>

definition ibool :: "bool \<Rightarrow> int" where
  "ibool b = (if b then 1 else 0)"

section \<open>Game/TubeConnection.h\<close>

text \<open>
  \<^verbatim>\<open>int CalculateAverageDIRTDamageProtection(int playerNum)
    { return Thunk<0x42FF90, &$::CalculateAverageDIRTDamageProtection>(playerNum); }\<close>
\<close>

definition TubeConnectionManager_Init :: "'h env \<Rightarrow> address \<Rightarrow> 'h process \<Rightarrow> 'h process" where
  "TubeConnectionManager_Init E this s = OP2Thunk_void E (At 0x42FD20) [ThisArg this] s"

definition TubeConnectionManager_Deinit :: "'h env \<Rightarrow> address \<Rightarrow> 'h process \<Rightarrow> 'h process" where
  "TubeConnectionManager_Deinit E this s = OP2Thunk_void E (At 0x42FCB0) [ThisArg this] s"

definition RecordBuilding :: "'h env \<Rightarrow> address \<Rightarrow> address \<Rightarrow> 'h process \<Rightarrow> 'h process" where
  "RecordBuilding E this pMapObj s = OP2Thunk_void E (At 0x42F150) [ThisArg this, ThisArg pMapObj] s"

definition RemoveBuilding :: "'h env \<Rightarrow> address \<Rightarrow> address \<Rightarrow> 'h process \<Rightarrow> 'h process" where
  "RemoveBuilding E this pMapObj s = OP2Thunk_void E (At 0x42F5F0) [ThisArg this, ThisArg pMapObj] s"

definition CalculateAverageDIRTDamageProtection ::
  "'h env \<Rightarrow> address \<Rightarrow> int \<Rightarrow> 'h process \<Rightarrow> int \<times> 'h process" where
  "CalculateAverageDIRTDamageProtection E this playerNum s =
     OP2Thunk_int E (At 0x42FF90) [ThisArg this, IntArg playerNum] s"

definition GetTubeStatus :: "'h env \<Rightarrow> int \<Rightarrow> int \<Rightarrow> 'h process \<Rightarrow> int \<times> 'h process" where
  "GetTubeStatus E tileX tileY s = OP2Thunk_int E (At 0x42ED90) [IntArg tileX, IntArg tileY] s"

text \<open>
  \<^verbatim>\<open>int CalculateDIRTDamagePrevention() { return Thunk<0x430050, &$::CalculateDIRTDamagePrevention>(); }\<close>
\<close>

definition CalculateDIRTDamagePrevention ::
  "'h env \<Rightarrow> address \<Rightarrow> 'h process \<Rightarrow> int \<times> 'h process" where
  "CalculateDIRTDamagePrevention E this s = OP2Thunk_int E (At 0x430050) [ThisArg this] s"

section \<open>API/GameMap.h\<close>

text \<open>
  \<^verbatim>\<open>static int GetTile(Location where) { return OP2Thunk<0x476D00, int FASTCALL(Location)>(where); }\<close>
  \<^verbatim>\<open>static void FASTCALL SetTile(Location where, int tileIndex)
    { return OP2Thunk<0x476D80, &$::SetTile>(where, tileIndex); }\<close>
  The parameter \<open>where\<close> is named \<open>loc\<close> here.
\<close>

definition GetTile :: "'h env \<Rightarrow> Location \<Rightarrow> 'h process \<Rightarrow> int \<times> 'h process" where
  "GetTile E loc s = OP2Thunk_int E (At 0x476D00) [LocArg loc] s"

definition SetTile :: "'h env \<Rightarrow> Location \<Rightarrow> int \<Rightarrow> 'h process \<Rightarrow> 'h process" where
  "SetTile E loc tileIndex s = OP2Thunk_void E (At 0x476D80) [LocArg loc, IntArg tileIndex] s"


text \<open>
  \<^verbatim>\<open>static void SetBulldozed(Location where)
    { SetTile(where, GetImpl()->pTerrainManager_->GetBulldozedTileIndex(GetTile(where))); }\<close>
  and the same with \<open>GetScorchMarkTileIndex\<close>, \<open>GetCommonRubbleTileIndex\<close> and
  \<open>GetRareRubbleTileIndex\<close>.
\<close>

definition SetBulldozed :: "'h env \<Rightarrow> Location \<Rightarrow> 'h process \<Rightarrow> 'h process" where
  "SetBulldozed E loc s =
     (case GetTile E loc s of (t, s1) \<Rightarrow>
      case OP2Thunk_int E TerrainManager_GetBulldozedTileIndex [IntArg t] s1 of (i, s2) \<Rightarrow>
      SetTile E loc i s2)"

definition CreateScorchMark :: "'h env \<Rightarrow> Location \<Rightarrow> 'h process \<Rightarrow> 'h process" where
  "CreateScorchMark E loc s =
     (case GetTile E loc s of (t, s1) \<Rightarrow>
      case OP2Thunk_int E TerrainManager_GetScorchMarkTileIndex [IntArg t] s1 of (i, s2) \<Rightarrow>
      SetTile E loc i s2)"

definition CreateCommonRubble :: "'h env \<Rightarrow> Location \<Rightarrow> 'h process \<Rightarrow> 'h process" where
  "CreateCommonRubble E loc s =
     (case GetTile E loc s of (t, s1) \<Rightarrow>
      case OP2Thunk_int E TerrainManager_GetCommonRubbleTileIndex [IntArg t] s1 of (i, s2) \<Rightarrow>
      SetTile E loc i s2)"

definition CreateRareRubble :: "'h env \<Rightarrow> Location \<Rightarrow> 'h process \<Rightarrow> 'h process" where
  "CreateRareRubble E loc s =
     (case GetTile E loc s of (t, s1) \<Rightarrow>
      case OP2Thunk_int E TerrainManager_GetRareRubbleTileIndex [IntArg t] s1 of (i, s2) \<Rightarrow>
      SetTile E loc i s2)"

text \<open>
  \<^verbatim>\<open>static void SetLavaFlowHelper(Location where, int topLeft, int topRight, int bottomLeft, int bottomRight) {
    SetTile(where,                  topLeft);
    SetTile(where + Location(0, 1), topRight);
    SetTile(where + Location(1, 0), bottomLeft);
    SetTile(where + Location(1, 1), bottomRight);
  }\<close>
\<close>

definition SetLavaFlowHelper ::
  "'h env \<Rightarrow> Location \<Rightarrow> int \<Rightarrow> int \<Rightarrow> int \<Rightarrow> int \<Rightarrow> 'h process \<Rightarrow> 'h process" where
  "SetLavaFlowHelper E loc topLeft topRight bottomLeft bottomRight s =
     (let s1 = SetTile E loc topLeft s;
          s2 = SetTile E (Location_plus E loc (Location 0 1)) topRight s1;
          s3 = SetTile E (Location_plus E loc (Location 1 0)) bottomLeft s2
      in SetTile E (Location_plus E loc (Location 1 1)) bottomRight s3)"

text \<open>
  \<^verbatim>\<open>static void CreateLavaFlowSW(Location where) { SetLavaFlowHelper(where, 0x447, 0x45E, 0x453, 0x469); }
  static void CreateLavaFlowS(Location  where) { SetTile(where, 0x474);  SetTile(where + Location(0, 1), 0x47E); }
  static void CreateLavaFlowSE(Location where) { SetLavaFlowHelper(where, 0x489, 0x4A0, 0x494, 0x4AB); }
  static void FreezeLavaFlowSW(Location where) { SetLavaFlowHelper(where, 0x44F, 0x465, 0x45A, 0x470); }
  static void FreezeLavaFlowS(Location  where) { SetTile(where, 0x47B);  SetTile(where + Location(0, 1), 0x486); }
  static void FreezeLavaFlowSE(Location where) { SetLavaFlowHelper(where, 0x490, 0x4A8, 0x49C, 0x4B2); }\<close>
\<close>

definition CreateLavaFlowSW :: "'h env \<Rightarrow> Location \<Rightarrow> 'h process \<Rightarrow> 'h process" where
  "CreateLavaFlowSW E loc s = SetLavaFlowHelper E loc 0x447 0x45E 0x453 0x469 s"

definition CreateLavaFlowS :: "'h env \<Rightarrow> Location \<Rightarrow> 'h process \<Rightarrow> 'h process" where
  "CreateLavaFlowS E loc s =
     (let s1 = SetTile E loc 0x474 s
      in SetTile E (Location_plus E loc (Location 0 1)) 0x47E s1)"

definition CreateLavaFlowSE :: "'h env \<Rightarrow> Location \<Rightarrow> 'h process \<Rightarrow> 'h process" where
  "CreateLavaFlowSE E loc s = SetLavaFlowHelper E loc 0x489 0x4A0 0x494 0x4AB s"

definition FreezeLavaFlowSW :: "'h env \<Rightarrow> Location \<Rightarrow> 'h process \<Rightarrow> 'h process" where
  "FreezeLavaFlowSW E loc s = SetLavaFlowHelper E loc 0x44F 0x465 0x45A 0x470 s"

definition FreezeLavaFlowS :: "'h env \<Rightarrow> Location \<Rightarrow> 'h process \<Rightarrow> 'h process" where
  "FreezeLavaFlowS E loc s =
     (let s1 = SetTile E loc 0x47B s
      in SetTile E (Location_plus E loc (Location 0 1)) 0x486 s1)"

definition FreezeLavaFlowSE :: "'h env \<Rightarrow> Location \<Rightarrow> 'h process \<Rightarrow> 'h process" where
  "FreezeLavaFlowSE E loc s = SetLavaFlowHelper E loc 0x490 0x4A8 0x49C 0x4B2 s"

section \<open>API/Game.h\<close>

datatype UnitDirection =
  East | SouthEast | South | SouthWest | West | NorthWest | North | NorthEast

fun UnitDirection_int :: "UnitDirection \<Rightarrow> int" where
  "UnitDirection_int East = 0"
| "UnitDirection_int SouthEast = 1"
| "UnitDirection_int South = 2"
| "UnitDirection_int SouthWest = 3"
| "UnitDirection_int West = 4"
| "UnitDirection_int NorthWest = 5"
| "UnitDirection_int North = 6"
| "UnitDirection_int NorthEast = 7"

text \<open>
  \<^verbatim>\<open>enum class MineType : int {
    RandomOre = int(OreType::Random), CommonOre = int(OreType::Common), RareOre = int(OreType::Rare),
    MagmaVent = -2, Fumarole = -3 };\<close>
  The code compares and orders mine types by value, so a mine type is its \<open>int\<close>.
\<close>

type_synonym MineType = int

definition MineType_RandomOre :: "'h env \<Rightarrow> MineType" where
  "MineType_RandomOre E = OreType_Random E"

definition MineType_CommonOre :: "'h env \<Rightarrow> MineType" where
  "MineType_CommonOre E = OreType_Common E"

definition MineType_RareOre :: "'h env \<Rightarrow> MineType" where
  "MineType_RareOre E = OreType_Rare E"

definition MineType_MagmaVent :: MineType where
  "MineType_MagmaVent = - 2"

definition MineType_Fumarole :: MineType where
  "MineType_Fumarole = - 3"

text \<open>
  \<^verbatim>\<open>static int GetRand(int range) { return Random::GetInstance()->Rand(range); }\<close>
  The parameter \<open>range\<close> is named \<open>rng\<close> here.
\<close>

definition GetRand :: "'h env \<Rightarrow> int \<Rightarrow> 'h process \<Rightarrow> int \<times> 'h process" where
  "GetRand E rng s = OP2Thunk_int E Random_Rand [IntArg rng] s"

text \<open>
  \<^verbatim>\<open>static Unit CreateUnit(
    MapID type, Location where, int ownerNum, MapID weaponCargo = {}, UnitDirection rotation = {}, bool lightsOn = true)
  {
    Unit u;
    OP2Thunk<0x478780, ibool FASTCALL(Unit&, MapID, Location, int, MapID, UnitDirection)>(
      u, type, where, ownerNum, weaponCargo, rotation);
    if (u.IsVehicle() && lightsOn) u.DoSetLights(true);
    return u;
  }\<close>
  The parameters \<open>type\<close> and \<open>where\<close> are named \<open>ty\<close> and \<open>loc\<close> here.
\<close>

definition CreateUnit ::
  "'h env \<Rightarrow> MapID \<Rightarrow> Location \<Rightarrow> int \<Rightarrow> MapID \<Rightarrow> UnitDirection \<Rightarrow> bool \<Rightarrow> 'h process
     \<Rightarrow> Unit \<times> 'h process" where
  "CreateUnit E ty loc ownerNum weaponCargo rotation lightsOn s =
     (case OP2Thunk_UnitRef E (At 0x478780) (Unit_default E)
             [IntArg ty, LocArg loc, IntArg ownerNum, IntArg weaponCargo,
              IntArg (UnitDirection_int rotation)] s of
        ((r, u), s1) \<Rightarrow>
          if Unit_IsVehicle E (host s1) u \<and> lightsOn
          then (u, OP2Thunk_void E Unit_DoSetLights [UnitArg u, IntArg (ibool True)] s1)
          else (u, s1))"

text \<open>
  \<^verbatim>\<open>static Unit CreateWreckage(Location location, int techID, bool isDiscovered = false) {
    return ((techID >= 8000) && (techID <= 12095) && OP2Thunk<0x4789F0, ibool FASTCALL(int, int, int, ibool)>(
      location.x, location.y, techID, isDiscovered)) ? *(_Player::GetInstance(6)->GetBeacons()) : Unit();
  }\<close>
\<close>

definition CreateWreckage ::
  "'h env \<Rightarrow> Location \<Rightarrow> int \<Rightarrow> bool \<Rightarrow> 'h process \<Rightarrow> Unit \<times> 'h process" where
  "CreateWreckage E location techID isDiscovered s =
     (if techID \<ge> 8000 \<and> techID \<le> 12095
      then (case OP2Thunk_int E (At 0x4789F0)
                   [IntArg (loc_x location), IntArg (loc_y location), IntArg techID,
                    IntArg (ibool isDiscovered)] s of
              (r, s1) \<Rightarrow>
                if r \<noteq> 0 then OP2Thunk_Unit E Player_GetBeacons [IntArg 6] s1
                else (Unit_default E, s1))
      else (Unit_default E, s))"

text \<open>
  \<^verbatim>\<open>inline Unit Game::CreateMine(Location location, MineType type, OreYield yield, OreVariant variant)
  {
    const MapID mapID = (type == MineType::MagmaVent) ? MapID::MagmaVent :
                        (type == MineType::Fumarole)  ? MapID::Fumarole  :
                                                        MapID::MiningBeacon;

    if ((mapID == MapID::MiningBeacon) && (yield == OreYield::Random) && (variant != OreVariant::Random)) {
      const int result = GetRand(10);
      yield = (result <= 1) ? OreYield::Bar3 : (result <= 7) ? OreYield::Bar2 : OreYield::Bar1;
    }
    const int varNum = MineManager::GetInstance()->GetVariantNum(yield, variant);

    return OP2Thunk<0x478940, ibool FASTCALL(MapID, int, int, MineType, OreYield, int)>(
      mapID, location.x, location.y, max(type, MineType::RandomOre), yield, varNum) ?
        *(_Player::GetInstance(6)->GetBeacons()) : Unit();
  }\<close>
\<close>

definition CreateMine_mapID :: "'h env \<Rightarrow> MineType \<Rightarrow> MapID" where
  "CreateMine_mapID E ty =
     (if ty = MineType_MagmaVent then MapID_MagmaVent E
      else if ty = MineType_Fumarole then MapID_Fumarole E
      else MapID_MiningBeacon E)"

definition CreateMine_yield :: "'h env \<Rightarrow> int \<Rightarrow> int" where
  "CreateMine_yield E result =
     (if result \<le> 1 then OreYield_Bar3 E else if result \<le> 7 then OreYield_Bar2 E
      else OreYield_Bar1 E)"

definition CreateMine ::
  "'h env \<Rightarrow> Location \<Rightarrow> MineType \<Rightarrow> int \<Rightarrow> int \<Rightarrow> 'h process \<Rightarrow> Unit \<times> 'h process" where
  "CreateMine E location ty yield variant s =
     (let mapID = CreateMine_mapID E ty in
      case (if mapID = MapID_MiningBeacon E \<and> yield = OreYield_Random E
               \<and> variant \<noteq> OreVariant_Random E
            then (case GetRand E 10 s of (result, s0) \<Rightarrow> (CreateMine_yield E result, s0))
            else (yield, s)) of
        (yield1, s1) \<Rightarrow>
      case OP2Thunk_int E MineManager_GetVariantNum [IntArg yield1, IntArg variant] s1 of
        (varNum, s2) \<Rightarrow>
      case OP2Thunk_int E (At 0x478940)
             [IntArg mapID, IntArg (loc_x location), IntArg (loc_y location),
              IntArg (max ty (MineType_RandomOre E)), IntArg yield1, IntArg varNum] s2 of
        (r, s3) \<Rightarrow>
          if r \<noteq> 0 then OP2Thunk_Unit E Player_GetBeacons [IntArg 6] s3
          else (Unit_default E, s3))"

section \<open>API/Enumerators.h\<close>

text \<open>
  \<^verbatim>\<open>PlayerUnitIterator& operator++() { pMo_ = (pMo_ != nullptr) ? pMo_->pPlayerNext_ : nullptr;  return *this; }\<close>
  The iterators only read the host: \<open>h\<close> is its state, the same before and after.
\<close>

definition PlayerUnitIterator_inc :: "'h env \<Rightarrow> 'h \<Rightarrow> address \<Rightarrow> address" where
  "PlayerUnitIterator_inc E h pMo = (if pMo \<noteq> 0 then pPlayerNext E h pMo else 0)"

text \<open>
  A \<open>FilterPlayerUnitIterator\<close>: the map object it stands at and the type it filters by.
  Its pointer to the enumerator's unit cache is the same in every iterator of one
  enumerator, so the cache is passed beside the iterator.
\<close>

datatype FilterPlayerUnitIterator = FilterPlayerUnitIterator (pMo: address) (filter_type: MapID)

text \<open>
  \<^verbatim>\<open>do PlayerUnitIterator::operator++(); while (pMo_ && (pMo_->GetTypeID() != type_));\<close>
  The loop does not end on a cyclic list without a unit of the type: that is \<open>None\<close>.
\<close>

partial_function (option) inc_while :: "'h env \<Rightarrow> 'h \<Rightarrow> MapID \<Rightarrow> address \<Rightarrow> address option" where
  "inc_while E h ty p =
     (let p1 = PlayerUnitIterator_inc E h p in
      if p1 \<noteq> 0 \<and> GetTypeID E h p1 \<noteq> ty then inc_while E h ty p1 else Some p1)"

text \<open>
  \<^verbatim>\<open>FilterPlayerUnitIterator& operator++() {
    if (type_ == MapID::Any) PlayerUnitIterator::operator++();
    else do PlayerUnitIterator::operator++(); while (pMo_ && (pMo_->GetTypeID() != type_));
    return *this;
  }\<close>
\<close>

definition FilterPlayerUnitIterator_inc ::
  "'h env \<Rightarrow> 'h \<Rightarrow> FilterPlayerUnitIterator \<Rightarrow> FilterPlayerUnitIterator option" where
  "FilterPlayerUnitIterator_inc E h it =
     (if filter_type it = MapID_Any E
      then Some (FilterPlayerUnitIterator (PlayerUnitIterator_inc E h (pMo it)) (filter_type it))
      else (case inc_while E h (filter_type it) (pMo it) of
              None \<Rightarrow> None
            | Some p \<Rightarrow> Some (FilterPlayerUnitIterator p (filter_type it))))"

text \<open>
  \<^verbatim>\<open>explicit FilterPlayerUnitIterator(PlayerUnitIterator src, MapID type = MapID::Any)
    : PlayerUnitIterator(src), type_(type)
      { if (pMo_ && (type_ != MapID::Any) && (pMo_->GetTypeID() != type_)) { ++(*this); } }\<close>
\<close>

definition FilterPlayerUnitIterator_new ::
  "'h env \<Rightarrow> 'h \<Rightarrow> address \<Rightarrow> MapID \<Rightarrow> FilterPlayerUnitIterator option" where
  "FilterPlayerUnitIterator_new E h p ty =
     (if p \<noteq> 0 \<and> ty \<noteq> MapID_Any E \<and> GetTypeID E h p \<noteq> ty
      then FilterPlayerUnitIterator_inc E h (FilterPlayerUnitIterator p ty)
      else Some (FilterPlayerUnitIterator p ty))"

text \<open>
  \<^verbatim>\<open>Unit& operator*() const { auto& u = pUnitCache_->emplace_back(pMo_); return u; }\<close>
  The unit made from the map object is appended to the cache and returned.
\<close>

definition deref :: "'h env \<Rightarrow> 'h \<Rightarrow> FilterPlayerUnitIterator \<Rightarrow> Unit list \<Rightarrow> Unit \<times> Unit list" where
  "deref E h it unitCache =
     (let u = Unit_of_MapObject E h (pMo it) in (u, unitCache @ [u]))"

text \<open>
  \<^verbatim>\<open>Iterator begin() { return Iterator(&unitCache_, GameImpl::GetInstance()->GetPlayer(playerNum_)->pVehicleList_, type_); }\<close>
  (\<open>pBuildingList_\<close> in \<open>PlayerBuildingEnum\<close>, \<open>pEntityList_\<close> in \<open>PlayerEntityEnum\<close>), and
  \<^verbatim>\<open>Iterator end() { return Iterator(&unitCache_, nullptr, type_); }\<close>
\<close>

definition PlayerVehicleEnum_begin ::
  "'h env \<Rightarrow> 'h \<Rightarrow> int \<Rightarrow> MapID \<Rightarrow> FilterPlayerUnitIterator option" where
  "PlayerVehicleEnum_begin E h playerNum ty =
     FilterPlayerUnitIterator_new E h (pVehicleList E h playerNum) ty"

definition PlayerBuildingEnum_begin ::
  "'h env \<Rightarrow> 'h \<Rightarrow> int \<Rightarrow> MapID \<Rightarrow> FilterPlayerUnitIterator option" where
  "PlayerBuildingEnum_begin E h playerNum ty =
     FilterPlayerUnitIterator_new E h (pBuildingList E h playerNum) ty"

definition PlayerEntityEnum_begin ::
  "'h env \<Rightarrow> 'h \<Rightarrow> int \<Rightarrow> MapID \<Rightarrow> FilterPlayerUnitIterator option" where
  "PlayerEntityEnum_begin E h playerNum ty =
     FilterPlayerUnitIterator_new E h (pEntityList E h playerNum) ty"

definition PlayerUnitEnumBase_end ::
  "'h env \<Rightarrow> 'h \<Rightarrow> MapID \<Rightarrow> FilterPlayerUnitIterator option" where
  "PlayerUnitEnumBase_end E h ty = FilterPlayerUnitIterator_new E h 0 ty"

text \<open>
  Iterating an enumerator, as \<^verbatim>\<open>for (Unit& u : e)\<close> does:
  \<^verbatim>\<open>for (auto it = e.begin(), last = e.end(); it != last; ++it) { Unit& u = *it; ... }\<close>
  with \<^verbatim>\<open>operator!=\<close> comparing \<open>pMo_\<close>. The result is the units the loop body sees, in order,
  and the enumerator's cache after the loop.
\<close>

partial_function (option) range_for ::
  "'h env \<Rightarrow> 'h \<Rightarrow> FilterPlayerUnitIterator \<Rightarrow> FilterPlayerUnitIterator \<Rightarrow> Unit list \<Rightarrow> Unit list
     \<Rightarrow> (Unit list \<times> Unit list) option" where
  "range_for E h it fin unitCache seen =
     (if pMo it \<noteq> pMo fin
      then (case deref E h it unitCache of
              (u, unitCache1) \<Rightarrow>
                (case FilterPlayerUnitIterator_inc E h it of
                   None \<Rightarrow> None
                 | Some it1 \<Rightarrow> range_for E h it1 fin unitCache1 (seen @ [u])))
      else Some (seen, unitCache))"

definition iterate ::
  "'h env \<Rightarrow> 'h \<Rightarrow> FilterPlayerUnitIterator option \<Rightarrow> FilterPlayerUnitIterator option \<Rightarrow> Unit list
     \<Rightarrow> (Unit list \<times> Unit list) option" where
  "iterate E h first fin unitCache =
     (case first of
        None \<Rightarrow> None
      | Some it \<Rightarrow> (case fin of None \<Rightarrow> None | Some l \<Rightarrow> range_for E h it l unitCache []))"

definition PlayerVehicleEnum ::
  "'h env \<Rightarrow> 'h \<Rightarrow> int \<Rightarrow> MapID \<Rightarrow> Unit list \<Rightarrow> (Unit list \<times> Unit list) option" where
  "PlayerVehicleEnum E h playerNum ty unitCache =
     iterate E h (PlayerVehicleEnum_begin E h playerNum ty) (PlayerUnitEnumBase_end E h ty) unitCache"

definition PlayerBuildingEnum ::
  "'h env \<Rightarrow> 'h \<Rightarrow> int \<Rightarrow> MapID \<Rightarrow> Unit list \<Rightarrow> (Unit list \<times> Unit list) option" where
  "PlayerBuildingEnum E h playerNum ty unitCache =
     iterate E h (PlayerBuildingEnum_begin E h playerNum ty) (PlayerUnitEnumBase_end E h ty) unitCache"

definition PlayerEntityEnum ::
  "'h env \<Rightarrow> 'h \<Rightarrow> int \<Rightarrow> MapID \<Rightarrow> Unit list \<Rightarrow> (Unit list \<times> Unit list) option" where
  "PlayerEntityEnum E h playerNum ty unitCache =
     iterate E h (PlayerEntityEnum_begin E h playerNum ty) (PlayerUnitEnumBase_end E h ty) unitCache"

section \<open>API/Trigger.h\<close>

datatype CompareMode = Equal | LowerEqual | GreaterEqual | Lower | Greater

fun CompareMode_int :: "CompareMode \<Rightarrow> int" where
  "CompareMode_int Equal = 0"
| "CompareMode_int LowerEqual = 1"
| "CompareMode_int GreaterEqual = 2"
| "CompareMode_int Lower = 3"
| "CompareMode_int Greater = 4"

datatype TriggerResource = Food | CommonOre | RareOre | Kids | Workers | Scientists | Colonists

fun TriggerResource_int :: "TriggerResource \<Rightarrow> int" where
  "TriggerResource_int Food = 0"
| "TriggerResource_int CommonOre = 1"
| "TriggerResource_int RareOre = 2"
| "TriggerResource_int Kids = 3"
| "TriggerResource_int Workers = 4"
| "TriggerResource_int Scientists = 5"
| "TriggerResource_int Colonists = 6"

datatype TriggerDamage = Damage_100 | Damage_75 | Damage_50

fun TriggerDamage_int :: "TriggerDamage \<Rightarrow> int" where
  "TriggerDamage_int Damage_100 = 1"
| "TriggerDamage_int Damage_75 = 2"
| "TriggerDamage_int Damage_50 = 3"

text \<open>
  Each factory is one \<^verbatim>\<open>return OP2Thunk<Address, Trigger FASTCALL(...)>(...)\<close>. The
  definitions list the arguments in the order of the call in the source; a
  \<open>std::string_view\<close> parameter is passed as its \<open>data()\<close>, and the literal \<^verbatim>\<open>""\<close> of
  \<open>CreateFailureCondition\<close> is a pointer to a single NUL. The parameters
  named \<open>where\<close> and \<open>group\<close> are \<open>loc\<close> and \<open>grp\<close> here.
\<close>

definition CreateVictoryCondition ::
  "'h env \<Rightarrow> Trigger \<Rightarrow> string_view \<Rightarrow> bool \<Rightarrow> bool \<Rightarrow> 'h process \<Rightarrow> Trigger \<times> 'h process" where
  "CreateVictoryCondition E condition text oneShot enabled s =
     OP2Thunk_Trigger E (At 0x479930)
       [IntArg (ibool enabled), IntArg (ibool oneShot), TriggerArg condition, StrArg (data text)] s"

definition CreateFailureCondition ::
  "'h env \<Rightarrow> Trigger \<Rightarrow> bool \<Rightarrow> 'h process \<Rightarrow> Trigger \<times> 'h process" where
  "CreateFailureCondition E condition enabled s =
     OP2Thunk_Trigger E (At 0x479980)
       [IntArg (ibool enabled), IntArg 0, TriggerArg condition, StrArg [CHR 0x00]] s"

text \<open>
  \<^verbatim>\<open>template <typename... Ts> Trigger CreateSetTrigger(
    std::string_view triggerFunction, int needed = sizeof...(Ts), bool oneShot = false, bool enabled = true,
    Ts... triggers)\<close>: the parameter pack is a list.
\<close>

definition CreateSetTrigger ::
  "'h env \<Rightarrow> string_view \<Rightarrow> int \<Rightarrow> bool \<Rightarrow> bool \<Rightarrow> Trigger list \<Rightarrow> 'h process
     \<Rightarrow> Trigger \<times> 'h process" where
  "CreateSetTrigger E triggerFunction needed oneShot enabled triggers s =
     OP2Thunk_Trigger E (At 0x4794E0)
       ([IntArg (ibool enabled), IntArg (ibool oneShot), IntArg (int (length triggers)),
         IntArg needed, StrArg (data triggerFunction)] @ map TriggerArg triggers) s"

definition CreateLastOneStandingTrigger ::
  "'h env \<Rightarrow> string_view \<Rightarrow> bool \<Rightarrow> bool \<Rightarrow> 'h process \<Rightarrow> Trigger \<times> 'h process" where
  "CreateLastOneStandingTrigger E triggerFunction oneShot enabled s =
     OP2Thunk_Trigger E (At 0x478F30)
       [IntArg (ibool enabled), IntArg (ibool oneShot), StrArg (data triggerFunction)] s"

definition CreateSpaceRaceTrigger ::
  "'h env \<Rightarrow> string_view \<Rightarrow> int \<Rightarrow> bool \<Rightarrow> bool \<Rightarrow> 'h process \<Rightarrow> Trigger \<times> 'h process" where
  "CreateSpaceRaceTrigger E triggerFunction playerNum oneShot enabled s =
     OP2Thunk_Trigger E (At 0x479260)
       [IntArg (ibool enabled), IntArg (ibool oneShot), IntArg playerNum,
        StrArg (data triggerFunction)] s"

definition CreateMidasTrigger ::
  "'h env \<Rightarrow> int \<Rightarrow> string_view \<Rightarrow> bool \<Rightarrow> bool \<Rightarrow> 'h process \<Rightarrow> Trigger \<times> 'h process" where
  "CreateMidasTrigger E time triggerFunction oneShot enabled s =
     OP2Thunk_Trigger E (At 0x479300)
       [IntArg (ibool enabled), IntArg (ibool oneShot), IntArg time, StrArg (data triggerFunction)] s"

definition CreateResourceTrigger ::
  "'h env \<Rightarrow> TriggerResource \<Rightarrow> CompareMode \<Rightarrow> int \<Rightarrow> string_view \<Rightarrow> int \<Rightarrow> bool \<Rightarrow> bool
     \<Rightarrow> 'h process \<Rightarrow> Trigger \<times> 'h process" where
  "CreateResourceTrigger E resourceType compare refAmount triggerFunction playerNum oneShot enabled s =
     OP2Thunk_Trigger E (At 0x478DE0)
       [IntArg (ibool enabled), IntArg (ibool oneShot), IntArg (TriggerResource_int resourceType),
        IntArg refAmount, IntArg playerNum, IntArg (CompareMode_int compare),
        StrArg (data triggerFunction)] s"

definition CreateResearchTrigger ::
  "'h env \<Rightarrow> int \<Rightarrow> string_view \<Rightarrow> int \<Rightarrow> bool \<Rightarrow> bool \<Rightarrow> 'h process \<Rightarrow> Trigger \<times> 'h process" where
  "CreateResearchTrigger E techID triggerFunction playerNum oneShot enabled s =
     OP2Thunk_Trigger E (At 0x478E90)
       [IntArg (ibool enabled), IntArg (ibool oneShot), IntArg techID, IntArg playerNum,
        StrArg (data triggerFunction)] s"

definition CreateKitTrigger ::
  "'h env \<Rightarrow> MapID \<Rightarrow> int \<Rightarrow> string_view \<Rightarrow> int \<Rightarrow> bool \<Rightarrow> bool \<Rightarrow> 'h process
     \<Rightarrow> Trigger \<times> 'h process" where
  "CreateKitTrigger E structureKitType refCount triggerFunction playerNum oneShot enabled s =
     OP2Thunk_Trigger E (At 0x4791C0)
       [IntArg (ibool enabled), IntArg (ibool oneShot), IntArg playerNum,
        IntArg structureKitType, IntArg refCount, StrArg (data triggerFunction)] s"

definition CreateCountTrigger ::
  "'h env \<Rightarrow> MapID \<Rightarrow> MapID \<Rightarrow> CompareMode \<Rightarrow> int \<Rightarrow> string_view \<Rightarrow> int \<Rightarrow> bool \<Rightarrow> bool
     \<Rightarrow> 'h process \<Rightarrow> Trigger \<times> 'h process" where
  "CreateCountTrigger E unitType cargoOrWeapon compare refCount triggerFunction playerNum oneShot enabled s =
     OP2Thunk_Trigger E (At 0x479110)
       [IntArg (ibool enabled), IntArg (ibool oneShot), IntArg playerNum, IntArg unitType,
        IntArg cargoOrWeapon, IntArg refCount, IntArg (CompareMode_int compare),
        StrArg (data triggerFunction)] s"

text \<open>The overload for Cargo Trucks; \<open>CargoType\<close> is an \<open>int\<close> enumeration.\<close>

definition CreateCountTrigger_cargo ::
  "'h env \<Rightarrow> int \<Rightarrow> CompareMode \<Rightarrow> int \<Rightarrow> string_view \<Rightarrow> int \<Rightarrow> bool \<Rightarrow> bool
     \<Rightarrow> 'h process \<Rightarrow> Trigger \<times> 'h process" where
  "CreateCountTrigger_cargo E truckCargoType compare refCount triggerFunction playerNum oneShot enabled s =
     OP2Thunk_Trigger E (At 0x479110)
       [IntArg (ibool enabled), IntArg (ibool oneShot), IntArg playerNum,
        IntArg (MapID_CargoTruck E), IntArg truckCargoType, IntArg refCount,
        IntArg (CompareMode_int compare), StrArg (data triggerFunction)] s"

definition CreateOperationalTrigger ::
  "'h env \<Rightarrow> MapID \<Rightarrow> CompareMode \<Rightarrow> int \<Rightarrow> int \<Rightarrow> string_view \<Rightarrow> bool \<Rightarrow> bool
     \<Rightarrow> 'h process \<Rightarrow> Trigger \<times> 'h process" where
  "CreateOperationalTrigger E structureType compare refCount playerNum triggerFunction oneShot enabled s =
     OP2Thunk_Trigger E (At 0x479880)
       [IntArg (ibool enabled), IntArg (ibool oneShot), IntArg playerNum, IntArg structureType,
        IntArg refCount, IntArg (CompareMode_int compare), StrArg (data triggerFunction)] s"

definition CreateVehicleCountTrigger ::
  "'h env \<Rightarrow> CompareMode \<Rightarrow> int \<Rightarrow> string_view \<Rightarrow> int \<Rightarrow> bool \<Rightarrow> bool \<Rightarrow> 'h process
     \<Rightarrow> Trigger \<times> 'h process" where
  "CreateVehicleCountTrigger E compare refCount triggerFunction playerNum oneShot enabled s =
     OP2Thunk_Trigger E (At 0x479440)
       [IntArg (ibool enabled), IntArg (ibool oneShot), IntArg playerNum, IntArg refCount,
        IntArg (CompareMode_int compare), StrArg (data triggerFunction)] s"

definition CreateBuildingCountTrigger ::
  "'h env \<Rightarrow> CompareMode \<Rightarrow> int \<Rightarrow> string_view \<Rightarrow> int \<Rightarrow> bool \<Rightarrow> bool \<Rightarrow> 'h process
     \<Rightarrow> Trigger \<times> 'h process" where
  "CreateBuildingCountTrigger E compare refCount triggerFunction playerNum oneShot enabled s =
     OP2Thunk_Trigger E (At 0x4793A0)
       [IntArg (ibool enabled), IntArg (ibool oneShot), IntArg playerNum, IntArg refCount,
        IntArg (CompareMode_int compare), StrArg (data triggerFunction)] s"

definition CreateTimeTrigger ::
  "'h env \<Rightarrow> int \<Rightarrow> string_view \<Rightarrow> bool \<Rightarrow> bool \<Rightarrow> 'h process \<Rightarrow> Trigger \<times> 'h process" where
  "CreateTimeTrigger E time triggerFunction oneShot enabled s =
     OP2Thunk_Trigger E (At 0x478D00)
       [IntArg (ibool enabled), IntArg (ibool oneShot), IntArg time, StrArg (data triggerFunction)] s"

text \<open>The overload with a time interval.\<close>

definition CreateTimeTrigger_range ::
  "'h env \<Rightarrow> int \<Rightarrow> int \<Rightarrow> string_view \<Rightarrow> bool \<Rightarrow> bool \<Rightarrow> 'h process \<Rightarrow> Trigger \<times> 'h process" where
  "CreateTimeTrigger_range E timeMin timeMax triggerFunction oneShot enabled s =
     OP2Thunk_Trigger E (At 0x478DA0)
       [IntArg (ibool enabled), IntArg (ibool oneShot), IntArg timeMin, IntArg timeMax,
        StrArg (data triggerFunction)] s"

definition CreateSpecialTarget ::
  "'h env \<Rightarrow> Unit \<Rightarrow> MapID \<Rightarrow> string_view \<Rightarrow> bool \<Rightarrow> bool \<Rightarrow> 'h process \<Rightarrow> Trigger \<times> 'h process" where
  "CreateSpecialTarget E targetUnit sourceUnitType triggerFunction oneShot enabled s =
     OP2Thunk_Trigger E (At 0x4797A0)
       [IntArg (ibool enabled), IntArg (ibool oneShot), UnitArg targetUnit,
        IntArg sourceUnitType, StrArg (data triggerFunction)] s"

definition CreateAttackedTrigger ::
  "'h env \<Rightarrow> ScGroup \<Rightarrow> string_view \<Rightarrow> bool \<Rightarrow> bool \<Rightarrow> 'h process \<Rightarrow> Trigger \<times> 'h process" where
  "CreateAttackedTrigger E grp triggerFunction oneShot enabled s =
     OP2Thunk_Trigger E (At 0x4795A0)
       [IntArg (ibool enabled), IntArg (ibool oneShot), GroupArg grp,
        StrArg (data triggerFunction)] s"

definition CreateDamagedTrigger ::
  "'h env \<Rightarrow> ScGroup \<Rightarrow> TriggerDamage \<Rightarrow> string_view \<Rightarrow> bool \<Rightarrow> bool \<Rightarrow> 'h process
     \<Rightarrow> Trigger \<times> 'h process" where
  "CreateDamagedTrigger E grp damage triggerFunction oneShot enabled s =
     OP2Thunk_Trigger E (At 0x479640)
       [IntArg (ibool enabled), IntArg (ibool oneShot), GroupArg grp,
        IntArg (TriggerDamage_int damage), StrArg (data triggerFunction)] s"

definition CreatePointTrigger ::
  "'h env \<Rightarrow> Location \<Rightarrow> string_view \<Rightarrow> int \<Rightarrow> bool \<Rightarrow> bool \<Rightarrow> 'h process
     \<Rightarrow> Trigger \<times> 'h process" where
  "CreatePointTrigger E loc triggerFunction playerNum oneShot enabled s =
     OP2Thunk_Trigger E (At 0x479070)
       [IntArg (ibool enabled), IntArg (ibool oneShot), IntArg playerNum, IntArg (loc_x loc),
        IntArg (loc_y loc), StrArg (data triggerFunction)] s"

text \<open>
  \<^verbatim>\<open>inline Trigger CreateRectTrigger(
    MapRect area,
    std::string_view triggerFunction = "", int playerNum = AllPlayers, bool oneShot = false, bool enabled = true)
  {
    return OP2Thunk<0x478FC0, Trigger FASTCALL(ibool, ibool, int, int, int, int, int, const char*)>(
      enabled, oneShot, playerNum, area.x1, area.x2, area.Width(), area.Height(), triggerFunction.data());
  }\<close>
\<close>

definition CreateRectTrigger ::
  "'h env \<Rightarrow> MapRect \<Rightarrow> string_view \<Rightarrow> int \<Rightarrow> bool \<Rightarrow> bool \<Rightarrow> 'h process
     \<Rightarrow> Trigger \<times> 'h process" where
  "CreateRectTrigger E area triggerFunction playerNum oneShot enabled s =
     OP2Thunk_Trigger E (At 0x478FC0)
       [IntArg (ibool enabled), IntArg (ibool oneShot), IntArg playerNum, IntArg (rect_x1 area),
        IntArg (rect_x2 area), IntArg (MapRect_Width E area), IntArg (MapRect_Height E area),
        StrArg (data triggerFunction)] s"

text \<open>
  \<^verbatim>\<open>inline Trigger CreateEscapeTrigger(
    MapRect area, MapID unitType, int refCount, int cargoType, int cargoAmount,
    std::string_view triggerFunction = "", int playerNum = AllPlayers, bool oneShot = false, bool enabled = true)
  {
    return OP2Thunk<0x4796E0, Trigger FASTCALL(ibool, ibool, int, int, int, int, int, int, MapID, int, int, const char*)>(
      enabled, oneShot, playerNum, area.x1, area.y1, area.Width(), area.Height(), refCount, unitType, cargoType,
      cargoAmount, triggerFunction.data());
  }\<close>
\<close>

definition CreateEscapeTrigger ::
  "'h env \<Rightarrow> MapRect \<Rightarrow> MapID \<Rightarrow> int \<Rightarrow> int \<Rightarrow> int \<Rightarrow> string_view \<Rightarrow> int \<Rightarrow> bool \<Rightarrow> bool
     \<Rightarrow> 'h process \<Rightarrow> Trigger \<times> 'h process" where
  "CreateEscapeTrigger E area unitType refCount cargoType cargoAmount triggerFunction playerNum oneShot enabled s =
     OP2Thunk_Trigger E (At 0x4796E0)
       [IntArg (ibool enabled), IntArg (ibool oneShot), IntArg playerNum, IntArg (rect_x1 area),
        IntArg (rect_y1 area), IntArg (MapRect_Width E area), IntArg (MapRect_Height E area),
        IntArg refCount, IntArg unitType, IntArg cargoType, IntArg cargoAmount,
        StrArg (data triggerFunction)] s"

section \<open>Notions used to state the properties\<close>

text \<open>
  A player's unit list, as the claims describe it: \<open>chain E h p ps\<close> holds when \<open>ps\<close> are
  the map objects reached from \<open>p\<close> by following \<open>pPlayerNext_\<close> up to \<open>nullptr\<close>.
\<close>

fun chain :: "'h env \<Rightarrow> 'h \<Rightarrow> address \<Rightarrow> address list \<Rightarrow> bool" where
  "chain E h p [] = (p = 0)"
| "chain E h p (q # qs) = (p \<noteq> 0 \<and> q = p \<and> chain E h (pPlayerNext E h p) qs)"

text \<open>The first map object of a list, \<open>nullptr\<close> for the empty list.\<close>

fun chain_head :: "address list \<Rightarrow> address" where
  "chain_head [] = 0"
| "chain_head (q # qs) = q"

text \<open>A map object passes the filter: the filter is \<open>MapID::Any\<close>, or its type ID is the filter's.\<close>

definition passes :: "'h env \<Rightarrow> 'h \<Rightarrow> MapID \<Rightarrow> address \<Rightarrow> bool" where
  "passes E h ty p = (ty = MapID_Any E \<or> GetTypeID E h p = ty)"

text \<open>
  The terrain operations, as the claims describe them. \<open>tile_lookup_update E f loc s\<close> is
  \<open>SetTile(where, f(GetTile(where)))\<close> written out on the host: the tile is read at
  \<open>0x476D00\<close>, the lookup \<open>f\<close> is applied to it, and the result is written at \<open>0x476D80\<close>;
  these three calls are all that happens.
\<close>

definition tile_lookup_update :: "'h env \<Rightarrow> entry \<Rightarrow> Location \<Rightarrow> 'h process \<Rightarrow> 'h process" where
  "tile_lookup_update E f loc s =
     (let tile = thunk_int E (At 0x476D00) [LocArg loc] (host s);
          found = thunk_int E f [IntArg (fst tile)] (snd tile)
      in \<lparr>host = thunk_void E (At 0x476D80) [LocArg loc, IntArg (fst found)] (snd found),
          trace = trace s @ [(At 0x476D00, [LocArg loc]), (f, [IntArg (fst tile)]),
                             (At 0x476D80, [LocArg loc, IntArg (fst found)])]\<rparr>)"

text \<open>
  \<open>tile_writes E ws s\<close> is the sequence of \<open>SetTile\<close> calls \<open>ws\<close> (location and tile index)
  written out on the host: one call at \<open>0x476D80\<close> for each, in order, and nothing else.
\<close>

definition tile_writes :: "'h env \<Rightarrow> (Location \<times> int) list \<Rightarrow> 'h process \<Rightarrow> 'h process" where
  "tile_writes E ws s =
     \<lparr>host = foldl (\<lambda>h (l, i). thunk_void E (At 0x476D80) [LocArg l, IntArg i] h) (host s) ws,
      trace = trace s @ map (\<lambda>(l, i). (At 0x476D80, [LocArg l, IntArg i])) ws\<rparr>"

section \<open>A sample host\<close>

text \<open>
  A small concrete host for evaluating the definitions: its state counts the calls made
  into it, every entry point answers from that count, and player lists are the chain of
  map objects 1, 2, 3 with type IDs 5, 7, 5. \<open>MapRect::Width\<close> and \<open>Height\<close> are the
  differences of the corners, \<open>Location::operator+\<close> adds the coordinates.
\<close>

definition sample_env :: "nat env" where
  "sample_env =
     \<lparr>thunk_void = (\<lambda>a args h. Suc h),
      thunk_int = (\<lambda>a args h. (int h + 1, Suc h)),
      thunk_Unit = (\<lambda>a args h. (Unit (int h + 200), Suc h)),
      thunk_UnitRef = (\<lambda>a u args h. ((1, Unit (int h + 100)), Suc h)),
      thunk_Trigger = (\<lambda>a args h. (Trigger (int h + 300), Suc h)),
      Unit_IsVehicle = (\<lambda>h u. unit_id u \<ge> 100),
      Unit_of_MapObject = (\<lambda>h p. Unit (int p)),
      pPlayerNext = (\<lambda>h p. if p = 1 then 2 else if p = 2 then 3 else 0),
      GetTypeID = (\<lambda>h p. if p = 2 then 7 else 5),
      pVehicleList = (\<lambda>h n. 1),
      pBuildingList = (\<lambda>h n. 2),
      pEntityList = (\<lambda>h n. 0),
      Unit_default = Unit 0,
      Location_plus = (\<lambda>a b. Location (loc_x a + loc_x b) (loc_y a + loc_y b)),
      MapRect_Width = (\<lambda>r. rect_x2 r - rect_x1 r),
      MapRect_Height = (\<lambda>r. rect_y2 r - rect_y1 r),
      MapID_Any = - 1,
      MapID_CargoTruck = 1,
      MapID_MagmaVent = 93,
      MapID_Fumarole = 92,
      MapID_MiningBeacon = 91,
      OreType_Random = - 1,
      OreType_Common = 0,
      OreType_Rare = 1,
      OreYield_Random = - 1,
      OreYield_Bar1 = 2,
      OreYield_Bar2 = 1,
      OreYield_Bar3 = 0,
      OreVariant_Random = - 1\<rparr>"

definition sample_start :: "nat process" where
  "sample_start = \<lparr>host = 0, trace = []\<rparr>"

section \<open>Properties of the bit flag helpers\<close>

lemma SetBitFlag_on: "SetBitFlag out flag True = out OR flag"
  by (rule bit_word_eqI) (auto simp: SetBitFlag_def bit_simps)

lemma SetBitFlag_off: "SetBitFlag out flag False = out AND NOT flag"
  by (rule bit_word_eqI) (auto simp: SetBitFlag_def bit_simps)

text \<open>
  C9. After \<open>SetBitFlag(out, flag, on)\<close> the value of \<open>out\<close> is \<open>out | flag\<close> when \<open>on\<close> is
  true and \<open>out & ~flag\<close> when \<open>on\<close> is false; the bits of \<open>out\<close> outside \<open>flag\<close> are the
  same before and after, whatever \<open>on\<close> is.
\<close>

theorem SetBitFlag_spec:
  "SetBitFlag out flag True = out OR flag \<and>
   SetBitFlag out flag False = out AND NOT flag \<and>
   SetBitFlag out flag on AND NOT flag = out AND NOT flag"
proof -
  have "SetBitFlag out flag on AND NOT flag = out AND NOT flag"
    by (rule bit_word_eqI) (auto simp: SetBitFlag_def bit_simps)
  then show ?thesis
    by (simp only: SetBitFlag_on SetBitFlag_off simp_thms)
qed

section \<open>Properties of GetNextBit\<close>

subsection \<open>The trailing zero count\<close>


lemma trailing_zeros_zero: "trailing_zeros 0 = 32"
proof -
  have "takeWhile Not (map (bit (0::uint32)) [0..<32]) = map (bit (0::uint32)) [0..<32]"
    by (subst takeWhile_eq_all_conv) simp
  then have "length (takeWhile Not (map (bit (0::uint32)) [0..<32])) = length [0..<(32::nat)]"
    by (simp only: length_map)
  then show ?thesis
    unfolding trailing_zeros_def by simp
qed

lemma nonzero_bit: "(w::uint32) \<noteq> 0 \<Longrightarrow> \<exists>n<32. bit w n"
proof (rule ccontr)
  assume w: "w \<noteq> 0" and n: "\<not> (\<exists>n<32. bit w n)"
  have "w = 0"
    by (rule bit_word_eqI) (use n in simp)
  with w show False by simp
qed

lemma trailing_zeros_less:
  assumes "w \<noteq> 0"
  shows "trailing_zeros w < 32"
proof -
  from assms obtain n where n: "n < 32" "bit w n"
    using nonzero_bit by blast
  let ?xs = "map (bit w) [0..<32]"
  have le: "length (takeWhile Not ?xs) \<le> length ?xs"
    by (rule length_takeWhile_le)
  have "length (takeWhile Not ?xs) \<noteq> length ?xs"
  proof
    assume "length (takeWhile Not ?xs) = length ?xs"
    then have "takeWhile Not ?xs = ?xs"
      using takeWhile_eq_take [of Not ?xs] by simp
    then have "\<forall>x\<in>set ?xs. \<not> x"
      by (simp only: takeWhile_eq_all_conv)
    with n show False by simp
  qed
  with le show ?thesis
    by (simp add: trailing_zeros_def)
qed

lemma trailing_zeros_bit:
  assumes "w \<noteq> 0"
  shows "bit w (trailing_zeros w)"
proof -
  let ?xs = "map (bit w) [0..<32]"
  have lt: "trailing_zeros w < length ?xs"
    using trailing_zeros_less [OF assms] by simp
  have "\<not> Not (?xs ! length (takeWhile Not ?xs))"
    by (rule nth_length_takeWhile) (use lt in \<open>simp add: trailing_zeros_def\<close>)
  then show ?thesis
    using lt by (simp add: trailing_zeros_def)
qed

lemma trailing_zeros_below:
  assumes "j < trailing_zeros w"
  shows "\<not> bit w j"
proof -
  let ?xs = "map (bit w) [0..<32]"
  have j: "j < length (takeWhile Not ?xs)"
    using assms by (simp add: trailing_zeros_def)
  then have "Not (takeWhile Not ?xs ! j)"
    using nth_mem set_takeWhileD by metis
  moreover have "takeWhile Not ?xs ! j = ?xs ! j"
    using j by (rule takeWhile_nth)
  moreover have "j < 32"
    using j length_takeWhile_le [of Not ?xs] by simp
  ultimately show ?thesis by simp
qed

lemma trailing_zeros_unique:
  assumes "bit w n" and "\<forall>j<n. \<not> bit w j"
  shows "trailing_zeros w = n"
proof -
  have w: "w \<noteq> 0" using assms(1) by auto
  have "\<not> n < trailing_zeros w"
    using trailing_zeros_below assms(1) by blast
  moreover have "\<not> trailing_zeros w < n"
    using trailing_zeros_bit [OF w] assms(2) by blast
  ultimately show ?thesis by simp
qed

lemma scan_loop_finds:
  "bit msk n \<Longrightarrow> (\<forall>j<n. \<not> bit msk j) \<Longrightarrow>
   scan_loop msk index = Some (drop_bit n msk, index + of_nat n)"
proof (induction n arbitrary: msk index)
  case 0
  then have "msk AND 1 \<noteq> 0"
    by (simp add: and_one_eq bit_0 mod_2_eq_odd)
  then show ?case
    by (subst scan_loop.simps) simp
next
  case (Suc n)
  from Suc.prems(2) have "\<not> bit msk 0"
    by blast
  then have z: "msk AND 1 = 0"
    by (simp add: and_one_eq bit_0 mod_2_eq_odd)
  have b: "bit (drop_bit 1 msk) n"
    using Suc.prems(1) by (simp add: bit_drop_bit_eq)
  have l: "\<forall>j<n. \<not> bit (drop_bit 1 msk) j"
    using Suc.prems(2) by (simp add: bit_drop_bit_eq)
  have "scan_loop msk index = scan_loop (drop_bit 1 msk) (index + 1)"
    by (subst scan_loop.simps) (simp add: z)
  also have "\<dots> = Some (drop_bit n (drop_bit 1 msk), index + 1 + of_nat n)"
    by (rule Suc.IH [OF b l])
  finally show ?case
    by (simp add: add.assoc add.commute)
qed

lemma scan_loop_nonzero:
  assumes "msk \<noteq> 0"
  shows "scan_loop msk 0 = Some (drop_bit (trailing_zeros msk) msk, of_nat (trailing_zeros msk))"
  using scan_loop_finds [OF trailing_zeros_bit [OF assms], of 0] trailing_zeros_below
  by simp

lemma drop_trailing_zeros_nonzero:
  assumes "msk \<noteq> 0"
  shows "drop_bit (trailing_zeros msk) msk \<noteq> 0"
proof
  assume "drop_bit (trailing_zeros msk) msk = 0"
  then have "\<not> bit (drop_bit (trailing_zeros msk) msk) 0"
    by simp
  then show False
    using trailing_zeros_bit [OF assms] by (simp add: bit_drop_bit_eq)
qed

lemma GetNextBit_nonzero:
  assumes "msk \<noteq> 0"
  shows "GetNextBit b pIndex msk = Some (True, Value (of_nat (trailing_zeros msk)))"
  using assms drop_trailing_zeros_nonzero [OF assms]
  by (cases b)
     (simp_all add: GetNextBit_def tzcnt_u32_def BitScanForward_def builtin_ctz_def
        scan_loop_nonzero)

lemma GetNextBit_zero:
  "GetNextBit b pIndex 0 =
     Some (False, case b of Win32_IX86 \<Rightarrow> Value 32 | Win32_Other \<Rightarrow> Indeterminate
                  | Gnuc \<Rightarrow> Indeterminate | Portable \<Rightarrow> Value pIndex)"
  by (cases b)
     (simp_all add: GetNextBit_def tzcnt_u32_def BitScanForward_def builtin_ctz_def
        trailing_zeros_zero)

text \<open>
  C10, as first stated: for a zero mask \<open>GetNextBit\<close> returns false and leaves
  \<open>*pIndex\<close> as it was. In the 32-bit Windows build \<open>*pIndex\<close> is assigned
  \<^verbatim>\<open>_tzcnt_u32(mask)\<close> before the test of the mask: an index of 7 becomes 32.
\<close>

theorem GetNextBit_zero_mask_counterexample:
  "GetNextBit Win32_IX86 7 0 = Some (False, Value 32) \<and>
   GetNextBit Win32_IX86 7 0 \<noteq> Some (False, Value 7)"
  by (simp add: GetNextBit_zero)

text \<open>
  C10, amended. In every build \<open>GetNextBit\<close> returns, and returns true exactly when the
  mask is not zero. For a nonzero mask \<open>*pIndex\<close> receives the index of the lowest set
  bit, which is the number of trailing zero bits. For a zero mask the portable loop leaves
  \<open>*pIndex\<close> as it was, the \<^verbatim>\<open>_tzcnt_u32\<close> build stores 32, and the
  \<^verbatim>\<open>_BitScanForward\<close> and \<^verbatim>\<open>__builtin_ctz\<close> builds leave an indeterminate value.
\<close>

theorem GetNextBit_spec:
  "(\<exists>st. GetNextBit b pIndex msk = Some (msk \<noteq> 0, st)) \<and>
   (msk \<noteq> 0 \<longrightarrow>
      GetNextBit b pIndex msk = Some (True, Value (of_nat (trailing_zeros msk))) \<and>
      trailing_zeros msk < 32 \<and>
      bit msk (trailing_zeros msk) \<and>
      (\<forall>j<trailing_zeros msk. \<not> bit msk j)) \<and>
   GetNextBit Portable pIndex 0 = Some (False, Value pIndex) \<and>
   GetNextBit Win32_IX86 pIndex 0 = Some (False, Value 32) \<and>
   GetNextBit Win32_Other pIndex 0 = Some (False, Indeterminate) \<and>
   GetNextBit Gnuc pIndex 0 = Some (False, Indeterminate)"
proof -
  have ret: "\<exists>st. GetNextBit b pIndex msk = Some (msk \<noteq> 0, st)"
  proof (cases "msk = 0")
    case True
    then show ?thesis by (simp add: GetNextBit_zero)
  next
    case False
    then show ?thesis by (simp add: GetNextBit_nonzero)
  qed
  have nz: "msk \<noteq> 0 \<longrightarrow>
      GetNextBit b pIndex msk = Some (True, Value (of_nat (trailing_zeros msk))) \<and>
      trailing_zeros msk < 32 \<and>
      bit msk (trailing_zeros msk) \<and>
      (\<forall>j<trailing_zeros msk. \<not> bit msk j)"
    using GetNextBit_nonzero trailing_zeros_less trailing_zeros_bit trailing_zeros_below
    by blast
  show ?thesis
    using ret nz by (simp add: GetNextBit_zero)
qed

theorem GetNextBit_spec_witness:
  "(12::uint32) \<noteq> 0 \<and> GetNextBit Portable 7 12 = Some (True, Value 2) \<and>
   bit (12::uint32) 2 \<and> \<not> bit (12::uint32) 0 \<and> \<not> bit (12::uint32) 1"
proof -
  have tz: "trailing_zeros 12 = 2"
    by (simp add: trailing_zeros_def bit_numeral_simps upt_rec)
  have nz: "(12::uint32) \<noteq> 0"
    by simp
  show ?thesis
    using GetNextBit_spec [of Portable 7 12] nz
    by (simp add: tz bit_numeral_simps)
qed

section \<open>Properties of the host calls\<close>

lemmas thunk_defs = OP2Thunk_void_def OP2Thunk_int_def OP2Thunk_Unit_def OP2Thunk_UnitRef_def
  OP2Thunk_Trigger_def

lemma SetTile_tile_writes: "SetTile E loc i s = tile_writes E [(loc, i)] s"
  by (simp add: SetTile_def tile_writes_def OP2Thunk_void_def)

lemma tile_writes_append: "tile_writes E ws (tile_writes E vs s) = tile_writes E (vs @ ws) s"
  by (simp add: tile_writes_def)

lemma SetLavaFlowHelper_tile_writes:
  "SetLavaFlowHelper E loc a b c d s =
     tile_writes E [(loc, a), (Location_plus E loc (Location 0 1), b),
                    (Location_plus E loc (Location 1 0), c),
                    (Location_plus E loc (Location 1 1), d)] s"
  by (simp add: SetLavaFlowHelper_def SetTile_tile_writes tile_writes_append Let_def)

lemma terrain_ops:
  "SetBulldozed E loc s = tile_lookup_update E TerrainManager_GetBulldozedTileIndex loc s"
  "CreateScorchMark E loc s = tile_lookup_update E TerrainManager_GetScorchMarkTileIndex loc s"
  "CreateCommonRubble E loc s = tile_lookup_update E TerrainManager_GetCommonRubbleTileIndex loc s"
  "CreateRareRubble E loc s = tile_lookup_update E TerrainManager_GetRareRubbleTileIndex loc s"
  by (simp_all add: SetBulldozed_def CreateScorchMark_def CreateCommonRubble_def
      CreateRareRubble_def tile_lookup_update_def GetTile_def SetTile_def OP2Thunk_int_def
      OP2Thunk_void_def split_def Let_def)

lemma OP2Thunk_Trigger_single:
  "OP2Thunk_Trigger E a args s =
     (fst (thunk_Trigger E a args (host s)),
      \<lparr>host = snd (thunk_Trigger E a args (host s)), trace = trace s @ [(a, args)]\<rparr>)"
  by (simp add: OP2Thunk_Trigger_def split_def)

text \<open>
  C4. \<open>TubeConnectionManager::CalculateAverageDIRTDamageProtection(playerNum)\<close> and
  \<open>TubeConnection::CalculateDIRTDamagePrevention()\<close> are each exactly one call into the host,
  at \<open>0x42FF90\<close> and \<open>0x430050\<close>: the call receives \<open>this\<close> and the arguments as given, the
  result is the host's result, the host's state afterwards is the one the host left, and the
  trace grows by that one call.
\<close>

theorem DIRT_damage_single_thunk:
  "CalculateAverageDIRTDamageProtection E this playerNum s =
     (fst (thunk_int E (At 0x42FF90) [ThisArg this, IntArg playerNum] (host s)),
      \<lparr>host = snd (thunk_int E (At 0x42FF90) [ThisArg this, IntArg playerNum] (host s)),
       trace = trace s @ [(At 0x42FF90, [ThisArg this, IntArg playerNum])]\<rparr>) \<and>
   CalculateDIRTDamagePrevention E this s =
     (fst (thunk_int E (At 0x430050) [ThisArg this] (host s)),
      \<lparr>host = snd (thunk_int E (At 0x430050) [ThisArg this] (host s)),
       trace = trace s @ [(At 0x430050, [ThisArg this])]\<rparr>)"
  by (simp add: CalculateAverageDIRTDamageProtection_def CalculateDIRTDamagePrevention_def
      OP2Thunk_int_def split_def)





text \<open>
  C2, as first stated: unit placement contains no locally implemented logic, every call of
  \<open>Game::CreateUnit\<close> being the thunk at \<open>0x478780\<close>. On the sample host, where the placed unit
  is a vehicle, two calls of \<open>CreateUnit\<close> that hand the same arguments to the thunk differ in
  what they do to the host: with \<open>lightsOn\<close> set, \<open>CreateUnit\<close> decides to call \<open>DoSetLights\<close>
  on the unit after the thunk, so it is not the thunk alone.
\<close>

theorem CreateUnit_lights_counterexample:
  "snd (CreateUnit sample_env 1 (Location 3 4) 0 0 South True sample_start) =
     \<lparr>host = 2,
      trace = [(At 0x478780, [UnitArg (Unit 0), IntArg 1, LocArg (Location 3 4), IntArg 0,
                              IntArg 0, IntArg 2]),
               (Unit_DoSetLights, [UnitArg (Unit 100), IntArg 1])]\<rparr> \<and>
   snd (CreateUnit sample_env 1 (Location 3 4) 0 0 South False sample_start) =
     \<lparr>host = 1,
      trace = [(At 0x478780, [UnitArg (Unit 0), IntArg 1, LocArg (Location 3 4), IntArg 0,
                              IntArg 0, IntArg 2])]\<rparr> \<and>
   snd (CreateUnit sample_env 1 (Location 3 4) 0 0 South True sample_start) \<noteq>
     snd (OP2Thunk_UnitRef sample_env (At 0x478780) (Unit 0)
            [IntArg 1, LocArg (Location 3 4), IntArg 0, IntArg 0, IntArg 2] sample_start)"
  by (simp add: CreateUnit_def thunk_defs ibool_def sample_env_def sample_start_def)

text \<open>
  C2, amended. Every call of \<open>Game::CreateUnit\<close> calls the host at \<open>0x478780\<close>, first and
  once, with the type, location, owner number, weapon or cargo and rotation it was given
  (the rotation as its enumerator value, \<open>East = 0\<close> to \<open>NorthEast = 7\<close>), and returns the
  \<open>Unit\<close> that call assigned. \<open>CreateUnit\<close> adds one piece of logic of its own, after the
  placement: when the new unit is a vehicle and \<open>lightsOn\<close> is set, it calls
  \<open>DoSetLights(true)\<close> on the unit; otherwise it makes no further call.
\<close>

theorem CreateUnit_delegates:
  "CreateUnit E ty loc ownerNum weaponCargo rotation lightsOn s =
     (let args = [IntArg ty, LocArg loc, IntArg ownerNum, IntArg weaponCargo,
                  IntArg (UnitDirection_int rotation)];
          reply = thunk_UnitRef E (At 0x478780) (Unit_default E) args (host s);
          u = snd (fst reply);
          placed = (At 0x478780, UnitArg (Unit_default E) # args)
      in if Unit_IsVehicle E (snd reply) u \<and> lightsOn
         then (u, \<lparr>host = thunk_void E Unit_DoSetLights [UnitArg u, IntArg 1] (snd reply),
                   trace = trace s @ [placed, (Unit_DoSetLights, [UnitArg u, IntArg 1])]\<rparr>)
         else (u, \<lparr>host = snd reply, trace = trace s @ [placed]\<rparr>)) \<and>
   map UnitDirection_int
     [East, SouthEast, South, SouthWest, West, NorthWest, North, NorthEast] =
     [0, 1, 2, 3, 4, 5, 6, 7]"
  by (simp add: CreateUnit_def thunk_defs split_def Let_def ibool_def)

text \<open>
  C8. \<open>Game::CreateWreckage(location, techID, isDiscovered)\<close> with \<open>techID\<close> below 8000 or
  above 12095 returns the default \<open>Unit\<close> and leaves the process as it was: no call into the
  host is made. Whenever it does call the host, \<open>techID\<close> is within 8000 to 12095, and for
  such a \<open>techID\<close> its first call is the one at \<open>0x4789F0\<close> with the location, the tech ID
  and the discovery flag.
\<close>

theorem CreateWreckage_guard:
  "(techID < 8000 \<or> techID > 12095 \<longrightarrow>
      CreateWreckage E location techID isDiscovered s = (Unit_default E, s)) \<and>
   (trace (snd (CreateWreckage E location techID isDiscovered s)) \<noteq> trace s \<longrightarrow>
      8000 \<le> techID \<and> techID \<le> 12095) \<and>
   (8000 \<le> techID \<and> techID \<le> 12095 \<longrightarrow>
      (\<exists>rest. trace (snd (CreateWreckage E location techID isDiscovered s)) =
         trace s @ (At 0x4789F0, [IntArg (loc_x location), IntArg (loc_y location),
                                  IntArg techID, IntArg (ibool isDiscovered)]) # rest))"
  by (auto simp: CreateWreckage_def thunk_defs split_def)

theorem CreateWreckage_guard_witness:
  "(7999::int) < 8000 \<and>
   CreateWreckage sample_env (Location 3 4) 7999 False sample_start = (Unit 0, sample_start)"
proof -
  have d: "Unit_default sample_env = Unit 0"
    by (simp add: sample_env_def)
  have "CreateWreckage sample_env (Location 3 4) 7999 False sample_start =
          (Unit_default sample_env, sample_start)"
    using CreateWreckage_guard [of 7999 sample_env "Location 3 4" False sample_start]
    by simp
  then show ?thesis
    by (simp only: d) simp
qed

text \<open>
  C7. Each terrain operation of \<open>GameMap\<close> is a composition of the tile accessors.
  \<open>SetBulldozed\<close>, \<open>CreateScorchMark\<close>, \<open>CreateCommonRubble\<close> and \<open>CreateRareRubble\<close> are
  \<open>SetTile(where, f(GetTile(where)))\<close> for their \<open>TerrainManager\<close> lookup \<open>f\<close>; each lava-flow
  helper is the fixed sequence of \<open>SetTile\<close> calls with its constant tile indices on the tile
  and its neighbours. No other call is made and nothing else changes.
\<close>

theorem terrain_operations_compose:
  "SetBulldozed E loc s = tile_lookup_update E TerrainManager_GetBulldozedTileIndex loc s \<and>
   CreateScorchMark E loc s = tile_lookup_update E TerrainManager_GetScorchMarkTileIndex loc s \<and>
   CreateCommonRubble E loc s = tile_lookup_update E TerrainManager_GetCommonRubbleTileIndex loc s \<and>
   CreateRareRubble E loc s = tile_lookup_update E TerrainManager_GetRareRubbleTileIndex loc s \<and>
   CreateLavaFlowSW E loc s =
     tile_writes E [(loc, 0x447), (Location_plus E loc (Location 0 1), 0x45E),
                    (Location_plus E loc (Location 1 0), 0x453),
                    (Location_plus E loc (Location 1 1), 0x469)] s \<and>
   CreateLavaFlowS E loc s =
     tile_writes E [(loc, 0x474), (Location_plus E loc (Location 0 1), 0x47E)] s \<and>
   CreateLavaFlowSE E loc s =
     tile_writes E [(loc, 0x489), (Location_plus E loc (Location 0 1), 0x4A0),
                    (Location_plus E loc (Location 1 0), 0x494),
                    (Location_plus E loc (Location 1 1), 0x4AB)] s \<and>
   FreezeLavaFlowSW E loc s =
     tile_writes E [(loc, 0x44F), (Location_plus E loc (Location 0 1), 0x465),
                    (Location_plus E loc (Location 1 0), 0x45A),
                    (Location_plus E loc (Location 1 1), 0x470)] s \<and>
   FreezeLavaFlowS E loc s =
     tile_writes E [(loc, 0x47B), (Location_plus E loc (Location 0 1), 0x486)] s \<and>
   FreezeLavaFlowSE E loc s =
     tile_writes E [(loc, 0x490), (Location_plus E loc (Location 0 1), 0x4A8),
                    (Location_plus E loc (Location 1 0), 0x49C),
                    (Location_plus E loc (Location 1 1), 0x4B2)] s"
  by (simp add: terrain_ops CreateLavaFlowSW_def CreateLavaFlowS_def CreateLavaFlowSE_def
      FreezeLavaFlowSW_def FreezeLavaFlowS_def FreezeLavaFlowSE_def
      SetLavaFlowHelper_tile_writes SetTile_tile_writes tile_writes_append Let_def)

section \<open>Properties of the player unit enumerators\<close>


lemma chain_head_eq: "chain E h p ps \<Longrightarrow> chain_head ps = p"
  by (cases ps) auto

lemma chain_unique: "chain E h p ps \<Longrightarrow> chain E h p qs \<Longrightarrow> ps = qs"
proof (induction ps arbitrary: p qs)
  case Nil
  then show ?case by (cases qs) auto
next
  case (Cons a ps)
  then show ?case by (cases qs) auto
qed

lemma chain_dropWhile:
  "chain E h p ps \<Longrightarrow> chain E h (chain_head (dropWhile P ps)) (dropWhile P ps)"
proof (induction ps arbitrary: p)
  case Nil
  then show ?case by simp
next
  case (Cons a ps)
  show ?case
  proof (cases "P a")
    case True
    from Cons.prems have "chain E h (pPlayerNext E h p) ps"
      by simp
    then have "chain E h (chain_head (dropWhile P ps)) (dropWhile P ps)"
      by (rule Cons.IH)
    with True show ?thesis by simp
  next
    case False
    with Cons.prems show ?thesis by simp
  qed
qed

lemma filter_dropWhile_not: "filter P (dropWhile (\<lambda>x. \<not> P x) xs) = filter P xs"
  by (induction xs) auto

lemma inc_while_chain:
  "chain E h p (p # qs) \<Longrightarrow> ty \<noteq> MapID_Any E \<Longrightarrow>
   inc_while E h ty p = Some (chain_head (dropWhile (\<lambda>q. \<not> passes E h ty q) qs))"
proof (induction qs arbitrary: p)
  case Nil
  then show ?case
    by (subst inc_while.simps) (simp add: PlayerUnitIterator_inc_def)
next
  case (Cons q qs)
  from Cons.prems have p: "p \<noteq> 0" and nx: "pPlayerNext E h p = q" and q: "q \<noteq> 0"
    and ch: "chain E h q (q # qs)"
    by auto
  show ?case
  proof (cases "GetTypeID E h q = ty")
    case True
    then show ?thesis
      using p nx q by (subst inc_while.simps) (simp add: PlayerUnitIterator_inc_def passes_def)
  next
    case False
    have "inc_while E h ty p = inc_while E h ty q"
      using p nx q False by (subst inc_while.simps) (simp add: PlayerUnitIterator_inc_def)
    also have "\<dots> = Some (chain_head (dropWhile (\<lambda>q. \<not> passes E h ty q) qs))"
      by (rule Cons.IH [OF ch Cons.prems(2)])
    finally show ?thesis
      using False Cons.prems(2) by (simp add: passes_def)
  qed
qed

lemma inc_chain:
  assumes "chain E h p (p # qs)"
  shows "FilterPlayerUnitIterator_inc E h (FilterPlayerUnitIterator p ty) =
           Some (FilterPlayerUnitIterator
                   (chain_head (dropWhile (\<lambda>q. \<not> passes E h ty q) qs)) ty)"
proof (cases "ty = MapID_Any E")
  case True
  from assms have "p \<noteq> 0" and "chain E h (pPlayerNext E h p) qs"
    by auto
  then have "PlayerUnitIterator_inc E h p = chain_head qs"
    by (simp add: PlayerUnitIterator_inc_def chain_head_eq)
  moreover have "dropWhile (\<lambda>q. \<not> passes E h ty q) qs = qs"
    using True by (simp add: passes_def)
  ultimately show ?thesis
    using True by (simp add: FilterPlayerUnitIterator_inc_def)
next
  case False
  then show ?thesis
    using inc_while_chain [OF assms False]
    by (simp add: FilterPlayerUnitIterator_inc_def)
qed

lemma new_chain:
  assumes "chain E h p ps"
  shows "FilterPlayerUnitIterator_new E h p ty =
           Some (FilterPlayerUnitIterator
                   (chain_head (dropWhile (\<lambda>q. \<not> passes E h ty q) ps)) ty)"
proof (cases ps)
  case Nil
  with assms show ?thesis
    by (simp add: FilterPlayerUnitIterator_new_def)
next
  case (Cons q qs)
  with assms have ch: "chain E h p (p # qs)" and ps: "ps = p # qs" and p: "p \<noteq> 0"
    by auto
  show ?thesis
  proof (cases "passes E h ty p")
    case True
    then show ?thesis
      using p ps by (auto simp: FilterPlayerUnitIterator_new_def passes_def)
  next
    case False
    then have "ty \<noteq> MapID_Any E" "GetTypeID E h p \<noteq> ty"
      by (auto simp: passes_def)
    then show ?thesis
      using p ps False inc_chain [OF ch, of ty]
      by (simp add: FilterPlayerUnitIterator_new_def)
  qed
qed

lemma end_null:
  "PlayerUnitEnumBase_end E h ty = Some (FilterPlayerUnitIterator 0 ty)"
  by (simp add: PlayerUnitEnumBase_end_def FilterPlayerUnitIterator_new_def)

lemma chain_nonzero: "chain E h p ps \<Longrightarrow> q \<in> set ps \<Longrightarrow> q \<noteq> 0"
  by (induction ps arbitrary: p) auto

lemma range_for_chain:
  "chain E h p ps \<Longrightarrow>
   range_for E h
     (FilterPlayerUnitIterator (chain_head (dropWhile (\<lambda>q. \<not> passes E h ty q) ps)) ty)
     (FilterPlayerUnitIterator 0 ty) unitCache seen =
   Some (seen @ map (Unit_of_MapObject E h) (filter (passes E h ty) ps),
         unitCache @ map (Unit_of_MapObject E h) (filter (passes E h ty) ps))"
proof (induction ps arbitrary: p unitCache seen rule: length_induct)
  case (1 ps)
  let ?ds = "dropWhile (\<lambda>q. \<not> passes E h ty q) ps"
  have fl: "filter (passes E h ty) ps = filter (passes E h ty) ?ds"
    by (simp add: filter_dropWhile_not)
  have chd: "chain E h (chain_head ?ds) ?ds"
    using "1.prems" by (rule chain_dropWhile)
  show ?case
  proof (cases ?ds)
    case Nil
    have f: "filter (passes E h ty) ps = []"
      by (simp only: fl Nil filter.simps)
    have z: "chain_head ?ds = 0"
      by (simp only: Nil chain_head.simps)
    have "range_for E h (FilterPlayerUnitIterator 0 ty) (FilterPlayerUnitIterator 0 ty)
            unitCache seen = Some (seen, unitCache)"
      by (subst range_for.simps) simp
    then show ?thesis
      by (simp only: z f list.map append_Nil2)
  next
    case (Cons d ds)
    have dps: "d \<in> set ps"
      using Cons set_dropWhileD [of d "\<lambda>q. \<not> passes E h ty q" ps] by simp
    have d0: "d \<noteq> 0"
      by (rule chain_nonzero [OF "1.prems" dps])
    have "?ds \<noteq> []"
      by (simp only: Cons) simp
    then have "\<not> \<not> passes E h ty (hd ?ds)"
      by (rule hd_dropWhile)
    then have pd: "passes E h ty d"
      by (simp only: Cons list.sel not_not)
    have chd': "chain E h d (d # ds)"
      using chd Cons by simp
    then have chn: "chain E h (pPlayerNext E h d) ds"
      by simp
    have len: "length ds < length ps"
      using Cons length_dropWhile_le [of "\<lambda>q. \<not> passes E h ty q" ps] by simp
    have step: "range_for E h (FilterPlayerUnitIterator d ty) (FilterPlayerUnitIterator 0 ty)
                  unitCache seen =
                range_for E h
                  (FilterPlayerUnitIterator
                     (chain_head (dropWhile (\<lambda>q. \<not> passes E h ty q) ds)) ty)
                  (FilterPlayerUnitIterator 0 ty)
                  (unitCache @ [Unit_of_MapObject E h d]) (seen @ [Unit_of_MapObject E h d])"
      using d0 inc_chain [OF chd', of ty]
      by (subst range_for.simps) (simp add: deref_def Let_def)
    have ih: "range_for E h
                (FilterPlayerUnitIterator
                   (chain_head (dropWhile (\<lambda>q. \<not> passes E h ty q) ds)) ty)
                (FilterPlayerUnitIterator 0 ty)
                (unitCache @ [Unit_of_MapObject E h d]) (seen @ [Unit_of_MapObject E h d]) =
              Some ((seen @ [Unit_of_MapObject E h d])
                      @ map (Unit_of_MapObject E h) (filter (passes E h ty) ds),
                    (unitCache @ [Unit_of_MapObject E h d])
                      @ map (Unit_of_MapObject E h) (filter (passes E h ty) ds))"
      using "1.IH" [rule_format, OF len chn] by simp
    show ?thesis
      using step ih pd by (simp add: fl Cons)
  qed
qed

lemma iterate_chain:
  assumes "chain E h p ps"
  shows "iterate E h (FilterPlayerUnitIterator_new E h p ty) (PlayerUnitEnumBase_end E h ty) unitCache =
         Some (map (Unit_of_MapObject E h) (filter (passes E h ty) ps),
               unitCache @ map (Unit_of_MapObject E h) (filter (passes E h ty) ps))"
  using range_for_chain [OF assms, of ty unitCache "[]"]
  by (simp add: iterate_def new_chain [OF assms] end_null)

text \<open>
  C6. For every player and type filter, iterating \<open>PlayerVehicleEnum\<close>, \<open>PlayerBuildingEnum\<close>
  or \<open>PlayerEntityEnum\<close> ends and yields the units of exactly the map objects reached from
  the player's list head (\<open>pVehicleList_\<close>, \<open>pBuildingList_\<close>, \<open>pEntityList_\<close>) along
  \<open>pPlayerNext_\<close> whose type ID is the filter's (all of them for \<open>MapID::Any\<close>), in list
  order. The iteration reads the host's state and does not change it; the units it yields
  are appended to the enumerator's own cache.
\<close>

theorem player_enumerators:
  "(chain E h (pVehicleList E h playerNum) ps \<longrightarrow>
      PlayerVehicleEnum E h playerNum ty unitCache =
        Some (map (Unit_of_MapObject E h) (filter (passes E h ty) ps),
              unitCache @ map (Unit_of_MapObject E h) (filter (passes E h ty) ps))) \<and>
   (chain E h (pBuildingList E h playerNum) ps \<longrightarrow>
      PlayerBuildingEnum E h playerNum ty unitCache =
        Some (map (Unit_of_MapObject E h) (filter (passes E h ty) ps),
              unitCache @ map (Unit_of_MapObject E h) (filter (passes E h ty) ps))) \<and>
   (chain E h (pEntityList E h playerNum) ps \<longrightarrow>
      PlayerEntityEnum E h playerNum ty unitCache =
        Some (map (Unit_of_MapObject E h) (filter (passes E h ty) ps),
              unitCache @ map (Unit_of_MapObject E h) (filter (passes E h ty) ps)))"
  by (simp add: PlayerVehicleEnum_def PlayerBuildingEnum_def PlayerEntityEnum_def
      PlayerVehicleEnum_begin_def PlayerBuildingEnum_begin_def PlayerEntityEnum_begin_def
      iterate_chain)

theorem player_enumerators_witness:
  "chain sample_env 0 (pVehicleList sample_env 0 0) [1, 2, 3] \<and>
   PlayerVehicleEnum sample_env 0 0 5 [] = Some ([Unit 1, Unit 3], [Unit 1, Unit 3]) \<and>
   chain sample_env 0 (pBuildingList sample_env 0 0) [2, 3] \<and>
   PlayerBuildingEnum sample_env 0 0 (- 1) [] = Some ([Unit 2, Unit 3], [Unit 2, Unit 3]) \<and>
   chain sample_env 0 (pEntityList sample_env 0 0) [] \<and>
   PlayerEntityEnum sample_env 0 0 5 [Unit 9] = Some ([], [Unit 9])"
proof -
  have v: "chain sample_env 0 (pVehicleList sample_env 0 0) [1, 2, 3]"
    by (simp add: sample_env_def)
  have b: "chain sample_env 0 (pBuildingList sample_env 0 0) [2, 3]"
    by (simp add: sample_env_def)
  have e: "chain sample_env 0 (pEntityList sample_env 0 0) []"
    by (simp add: sample_env_def)
  have fv: "map (Unit_of_MapObject sample_env 0) (filter (passes sample_env 0 5) [1, 2, 3]) =
              [Unit 1, Unit 3]"
    by (simp add: sample_env_def passes_def)
  have fb: "map (Unit_of_MapObject sample_env 0) (filter (passes sample_env 0 (- 1)) [2, 3]) =
              [Unit 2, Unit 3]"
    by (simp add: sample_env_def passes_def)
  have fe: "map (Unit_of_MapObject sample_env 0) (filter (passes sample_env 0 5) []) = []"
    by simp
  have "PlayerVehicleEnum sample_env 0 0 5 [] = Some ([Unit 1, Unit 3], [Unit 1, Unit 3])"
    using player_enumerators [of sample_env 0 0 "[1, 2, 3]" 5 "[]", THEN conjunct1, rule_format, OF v]
    by (simp only: fv append_Nil)
  moreover
  have "PlayerBuildingEnum sample_env 0 0 (- 1) [] = Some ([Unit 2, Unit 3], [Unit 2, Unit 3])"
    using player_enumerators [of sample_env 0 0 "[2, 3]" "- 1" "[]", THEN conjunct2,
        THEN conjunct1, rule_format, OF b]
    by (simp only: fb append_Nil)
  moreover
  have "PlayerEntityEnum sample_env 0 0 5 [Unit 9] = Some ([], [Unit 9])"
    using player_enumerators [of sample_env 0 0 "[]" 5 "[Unit 9]", THEN conjunct2,
        THEN conjunct2, rule_format, OF e]
    by (simp only: fe append_Nil2)
  ultimately show ?thesis
    using v b e by (simp only: simp_thms)
qed

section \<open>Local logic in the binding layer\<close>

text \<open>
  C1, as first stated: every public method is a read or write of a host field or a thunk
  call, and no method implements logic locally. \<open>Game::CreateMine\<close> does. On the sample host,
  asked for a random ore beacon with a random yield and variant 2, it makes four calls into the
  host: it draws a random number, and the thunk at \<open>0x478940\<close> receives the yield \<open>Bar3\<close>
  that \<open>CreateMine\<close> chose from that number, not the caller's \<open>Random\<close>. Asked for a magma
  vent, it hands the thunk the map ID of a magma vent and the mine type \<open>RandomOre\<close>, not the
  caller's \<open>MagmaVent\<close>.
\<close>

theorem CreateMine_local_logic_counterexample:
  "trace (snd (CreateMine sample_env (Location 3 4) (MineType_RandomOre sample_env)
                 (OreYield_Random sample_env) 2 sample_start)) =
     [(Random_Rand, [IntArg 10]),
      (MineManager_GetVariantNum, [IntArg (OreYield_Bar3 sample_env), IntArg 2]),
      (At 0x478940, [IntArg (MapID_MiningBeacon sample_env), IntArg 3, IntArg 4,
                     IntArg (MineType_RandomOre sample_env), IntArg (OreYield_Bar3 sample_env),
                     IntArg 2]),
      (Player_GetBeacons, [IntArg 6])] \<and>
   OreYield_Bar3 sample_env \<noteq> OreYield_Random sample_env \<and>
   trace (snd (CreateMine sample_env (Location 3 4) MineType_MagmaVent
                 (OreYield_Random sample_env) 2 sample_start)) =
     [(MineManager_GetVariantNum, [IntArg (OreYield_Random sample_env), IntArg 2]),
      (At 0x478940, [IntArg (MapID_MagmaVent sample_env), IntArg 3, IntArg 4,
                     IntArg (MineType_RandomOre sample_env), IntArg (OreYield_Random sample_env),
                     IntArg 1]),
      (Player_GetBeacons, [IntArg 6])] \<and>
   MineType_RandomOre sample_env \<noteq> MineType_MagmaVent"
  by (simp add: CreateMine_def CreateMine_mapID_def CreateMine_yield_def GetRand_def thunk_defs
      MineType_RandomOre_def MineType_MagmaVent_def MineType_Fumarole_def sample_env_def
      sample_start_def)

text \<open>
  C1, amended. \<open>Game::CreateMine\<close> is not a bare thunk. It picks the map ID from the mine
  type (magma vent, fumarole, otherwise mining beacon). For a mining beacon with a random
  yield and a variant that is not random it draws \<open>GetRand(10)\<close> and picks the yield itself
  (\<open>Bar3\<close> up to 1, \<open>Bar2\<close> up to 7, \<open>Bar1\<close> above). It looks the variant number up, calls
  the thunk at \<open>0x478940\<close> with the map ID, the location, the larger of the mine type and
  \<open>RandomOre\<close>, the yield and the variant number, and returns the first beacon of player 6
  when the thunk's result is nonzero, the default \<open>Unit\<close> otherwise. Whatever it does to the
  host it does through these calls; which of them are made, and with which arguments, is
  decided locally.
\<close>

theorem CreateMine_spec:
  "CreateMine E location ty yield variant s =
     (let mapID = (if ty = - 2 then MapID_MagmaVent E
                   else if ty = - 3 then MapID_Fumarole E else MapID_MiningBeacon E);
          pregenerate = (mapID = MapID_MiningBeacon E \<and> yield = OreYield_Random E
                           \<and> variant \<noteq> OreVariant_Random E);
          rand = thunk_int E Random_Rand [IntArg 10] (host s);
          yield1 = (if pregenerate
                    then (if fst rand \<le> 1 then OreYield_Bar3 E
                          else if fst rand \<le> 7 then OreYield_Bar2 E else OreYield_Bar1 E)
                    else yield);
          var = thunk_int E MineManager_GetVariantNum [IntArg yield1, IntArg variant]
                  (if pregenerate then snd rand else host s);
          args = [IntArg mapID, IntArg (loc_x location), IntArg (loc_y location),
                  IntArg (max ty (OreType_Random E)), IntArg yield1, IntArg (fst var)];
          made = thunk_int E (At 0x478940) args (snd var);
          calls = (if pregenerate then [(Random_Rand, [IntArg 10])] else [])
                    @ [(MineManager_GetVariantNum, [IntArg yield1, IntArg variant]),
                       (At 0x478940, args)];
          beacon = thunk_Unit E Player_GetBeacons [IntArg 6] (snd made)
      in if fst made \<noteq> 0
         then (fst beacon,
               \<lparr>host = snd beacon, trace = trace s @ calls @ [(Player_GetBeacons, [IntArg 6])]\<rparr>)
         else (Unit_default E, \<lparr>host = snd made, trace = trace s @ calls\<rparr>))"
  by (simp add: CreateMine_def CreateMine_mapID_def CreateMine_yield_def GetRand_def thunk_defs
      MineType_RandomOre_def MineType_MagmaVent_def MineType_Fumarole_def split_def Let_def)

section \<open>The trigger factories\<close>

text \<open>
  Every factory of \<open>Trigger.h\<close> is defined above as one \<open>OP2Thunk_Trigger\<close>, which is one call
  into the host whose \<open>Trigger\<close> it returns (\<open>OP2Thunk_Trigger_single\<close>). For the time, count
  and resource triggers the call carries every parameter of the factory.
\<close>

lemma trigger_factories_forward:
  "CreateTimeTrigger E time triggerFunction oneShot enabled s =
     OP2Thunk_Trigger E (At 0x478D00)
       [IntArg (ibool enabled), IntArg (ibool oneShot), IntArg time, StrArg (data triggerFunction)] s"
  "CreateCountTrigger E unitType cargoOrWeapon compare refCount triggerFunction playerNum oneShot enabled s =
     OP2Thunk_Trigger E (At 0x479110)
       [IntArg (ibool enabled), IntArg (ibool oneShot), IntArg playerNum, IntArg unitType,
        IntArg cargoOrWeapon, IntArg refCount, IntArg (CompareMode_int compare),
        StrArg (data triggerFunction)] s"
  "CreateResourceTrigger E resourceType compare refAmount triggerFunction playerNum oneShot enabled s =
     OP2Thunk_Trigger E (At 0x478DE0)
       [IntArg (ibool enabled), IntArg (ibool oneShot), IntArg (TriggerResource_int resourceType),
        IntArg refAmount, IntArg playerNum, IntArg (CompareMode_int compare),
        StrArg (data triggerFunction)] s"
  by (simp_all add: CreateTimeTrigger_def CreateCountTrigger_def CreateResourceTrigger_def)

lemma trigger_enum_values:
  "map CompareMode_int [Equal, LowerEqual, GreaterEqual, Lower, Greater] = [0, 1, 2, 3, 4]"
  "map TriggerResource_int [Food, CommonOre, RareOre, Kids, Workers, Scientists, Colonists] =
     [0, 1, 2, 3, 4, 5, 6]"
  "map TriggerDamage_int [Damage_100, Damage_75, Damage_50] = [1, 2, 3]"
  "ibool True = 1" "ibool False = 0"
  by (simp_all add: ibool_def)

text \<open>
  C3. Each trigger factory hands its parameters to the host in one thunk call.
  \<open>CreateRectTrigger\<close> does not hand over its rectangle: for the area with corners (10, 25)
  and (30, 47) the call at \<open>0x478FC0\<close> receives \<open>x1 = 10\<close> and then \<open>x2 = 30\<close> where the
  top edge \<open>y1 = 25\<close> belongs, followed by the width and the height; \<open>y1\<close> is not passed.
  \<open>CreateEscapeTrigger\<close>, for the same area, passes \<open>x1 = 10\<close> and \<open>y1 = 25\<close>.
\<close>

theorem CreateRectTrigger_passes_x2_for_y1:
  "trace (snd (CreateRectTrigger sample_env (MapRect 10 25 30 47)
                 (string_view (''f'' @ [CHR 0x00]) 1) 0 False True sample_start)) =
     [(At 0x478FC0, [IntArg 1, IntArg 0, IntArg 0, IntArg 10, IntArg 30, IntArg 20, IntArg 22,
                     StrArg (''f'' @ [CHR 0x00])])] \<and>
   trace (snd (CreateEscapeTrigger sample_env (MapRect 10 25 30 47) 1 2 3 4
                 (string_view (''f'' @ [CHR 0x00]) 1) 0 False True sample_start)) =
     [(At 0x4796E0, [IntArg 1, IntArg 0, IntArg 0, IntArg 10, IntArg 25, IntArg 20, IntArg 22,
                     IntArg 2, IntArg 1, IntArg 3, IntArg 4, StrArg (''f'' @ [CHR 0x00])])]"
  by (simp add: CreateRectTrigger_def CreateEscapeTrigger_def OP2Thunk_Trigger_def ibool_def
      sample_env_def sample_start_def)

end
